theory Spec2Isabelle
  imports Complex_Main
begin

section \<open>Game Store API: data model\<close>

text \<open>
  The development embeds \<^verbatim>\<open>src/main.py\<close> and \<^verbatim>\<open>src/schemas.py\<close>.
  A handler that raises returns \<open>Inl\<close> of the exception; a handler that writes to the
  database returns the database after the write. The clock, the random token and the
  identifiers that the database assigns are inputs of a call (record \<open>env\<close>).
\<close>

subsection \<open>Exceptions\<close>

text \<open>
  \<open>HTTPException status_code detail\<close> is FastAPI's exception. \<open>IndexError\<close> and
  \<open>ValidationError\<close> are the two Python exceptions that the handlers could let escape
  (a subscript of a list that is too short, a Pydantic constraint that fails).
\<close>

datatype exn = HTTPException (status_code: nat) (detail: string) | IndexError | ValidationError

subsection \<open>Strings\<close>

text \<open>\<^verbatim>\<open>str.lower()\<close> on the ASCII letters; every other character is kept.\<close>

definition lower_char :: "char \<Rightarrow> char" where
  "lower_char c =
     (case map_of (zip ''ABCDEFGHIJKLMNOPQRSTUVWXYZ'' ''abcdefghijklmnopqrstuvwxyz'') c of
        None \<Rightarrow> c
      | Some l \<Rightarrow> l)"

definition lower :: "string \<Rightarrow> string" where
  "lower s = map lower_char s"

text \<open>\<^verbatim>\<open>s.startswith(p)\<close>.\<close>

definition startswith :: "string \<Rightarrow> string \<Rightarrow> bool" where
  "startswith s p = (take (length p) s = p)"

text \<open>
  \<^verbatim>\<open>s.split(" ", 1)\<close>: the text before the first space and the text after it, or the
  whole string alone when it has no space.
\<close>

definition split_space_1 :: "string \<Rightarrow> string list" where
  "split_space_1 s =
     (if CHR '' '' \<in> set s
      then [takeWhile (\<lambda>c. c \<noteq> CHR '' '') s, drop 1 (dropWhile (\<lambda>c. c \<noteq> CHR '' '') s)]
      else [s])"

text \<open>\<^verbatim>\<open>xs[1]\<close>, which raises \<^verbatim>\<open>IndexError\<close> on a list shorter than two.\<close>

fun index_1 :: "'a list \<Rightarrow> exn + 'a" where
  "index_1 (x # y # ys) = Inr y"
| "index_1 xs = Inl IndexError"

subsection \<open>Object identifiers\<close>

text \<open>
  \<^verbatim>\<open>bson.ObjectId\<close>. Built from a string, the constructor asks for 24 characters and
  hands them to \<^verbatim>\<open>bytes.fromhex\<close>; the bytes that come back are the identifier, and
  \<^verbatim>\<open>str\<close> prints them as lower-case hexadecimal digits. Two identifiers are equal
  when their bytes are, so the identifier is kept as that lower-case string.

  \<^verbatim>\<open>bytes.fromhex\<close> reads two adjacent hexadecimal digits for each byte and skips
  ASCII white space in front of a pair; anything else makes it raise. A string of 24
  characters that holds white space is therefore accepted and gives fewer than twelve
  bytes. \<open>fromhex\<close> returns the digits of the bytes, \<open>None\<close> when Python raises.
\<close>

datatype object_id = ObjectId (hex: string)

definition is_hex_char :: "char \<Rightarrow> bool" where
  "is_hex_char c = (c \<in> set ''0123456789abcdefABCDEF'')"

definition is_space :: "char \<Rightarrow> bool" where
  "is_space c = (c \<in> set [CHR '' '', CHR 0x09, CHR 0x0A, CHR 0x0B, CHR 0x0C, CHR 0x0D])"

fun fromhex :: "string \<Rightarrow> string option" where
  "fromhex [] = Some []"
| "fromhex [c] = (if is_space c then Some [] else None)"
| "fromhex (c # c' # cs) =
     (if is_space c then fromhex (c' # cs)
      else if is_hex_char c \<and> is_hex_char c'
      then map_option (\<lambda>rest. lower_char c # lower_char c' # rest) (fromhex cs)
      else None)"

text \<open>\<^verbatim>\<open>ObjectId(s)\<close> for a string \<open>s\<close>; \<open>None\<close> is \<^verbatim>\<open>InvalidId\<close>.\<close>

definition ObjectId_of :: "string \<Rightarrow> object_id option" where
  "ObjectId_of s = (if length s = 24 then map_option ObjectId (fromhex s) else None)"

text \<open>
  \<^verbatim>\<open>ObjectId.is_valid(s)\<close>: false on an empty value, otherwise whether the
  constructor accepts it.
\<close>

definition ObjectId_is_valid :: "string \<Rightarrow> bool" where
  "ObjectId_is_valid s = (s \<noteq> [] \<and> ObjectId_of s \<noteq> None)"

definition str_oid :: "object_id \<Rightarrow> string" where
  "str_oid i = hex i"

definition oid :: "string \<Rightarrow> exn + object_id" where
  "oid id_str =
     (case ObjectId_of id_str of
        Some i \<Rightarrow> Inr i
      | None \<Rightarrow> Inl (HTTPException 400 ''Invalid id format''))"

text \<open>
  An identifier as the database generates it: twelve bytes, printed as 24 lower-case
  hexadecimal digits.
\<close>

definition wf_oid :: "object_id \<Rightarrow> bool" where
  "wf_oid i = (length (hex i) = 24 \<and> list_all (\<lambda>c. c \<in> set ''0123456789abcdef'') (hex i))"

subsection \<open>Schemas (\<^verbatim>\<open>schemas.py\<close>) and request bodies\<close>

text \<open>
  One record for each Pydantic model; the fields carry a prefix because two models share
  field names. \<open>price\<close> is a Python float that the handlers store and never compute with.
\<close>

record User =
  u_name :: string
  u_email :: string
  u_password_hash :: string
  u_role :: string
  u_is_active :: bool

record Game =
  g_title :: string
  g_platform :: string
  g_description :: "string option"
  g_price :: real
  g_images :: "string list"
  g_category :: "string option"
  g_in_stock :: bool

record Order =
  o_user_id :: "string option"
  o_game_id :: string
  o_transaction_id :: string
  o_payment_method :: string
  o_delivery_email :: string
  o_status :: string

record Session =
  s_user_id :: string
  s_token :: string
  s_expires_at :: int

record RegisterRequest =
  rr_name :: string
  rr_email :: string
  rr_password :: string

record LoginRequest =
  lr_email :: string
  lr_password :: string

record TokenResponse =
  tr_token :: string
  tr_role :: string
  tr_name :: string
  tr_email :: string

record GameCreateRequest =
  gc_title :: string
  gc_platform :: string
  gc_price :: real
  gc_description :: "string option"
  gc_images :: "string list"
  gc_category :: "string option"
  gc_in_stock :: bool

record GameUpdateRequest =
  gu_title :: "string option"
  gu_platform :: "string option"
  gu_price :: "real option"
  gu_description :: "string option"
  gu_images :: "string list option"
  gu_category :: "string option"
  gu_in_stock :: "bool option"

record CreateOrderRequest =
  co_game_id :: string
  co_transaction_id :: string
  co_delivery_email :: string

subsection \<open>The document store\<close>

text \<open>
  A stored document is the model's fields under the \<^verbatim>\<open>_id\<close> that the database gave
  it; \<open>updated_at\<close> is the key that the two \<^verbatim>\<open>$set\<close> updates add. The documents of a
  collection conform to its schema, so a \<^verbatim>\<open>.get(key, default)\<close> of the source always
  finds the key. A collection is the list of its documents in insertion order.
\<close>

record 'a document =
  doc_id :: object_id
  doc :: 'a
  updated_at :: "int option"

record db =
  COL_USER :: "User document list"
  COL_GAME :: "Game document list"
  COL_ORDER :: "Order document list"
  COL_SESSION :: "Session document list"

text \<open>\<^verbatim>\<open>collection.find_one(query)\<close>: the first document that the query matches.\<close>

definition find_one :: "('a \<Rightarrow> bool) \<Rightarrow> 'a list \<Rightarrow> 'a option" where
  "find_one q coll = find q coll"

text \<open>
  \<^verbatim>\<open>collection.update_one(query, {"$set": ...})\<close>: the first matching document is
  changed; the result is the collection and \<^verbatim>\<open>matched_count\<close>.
\<close>

fun update_one :: "('a \<Rightarrow> bool) \<Rightarrow> ('a \<Rightarrow> 'a) \<Rightarrow> 'a list \<Rightarrow> 'a list \<times> nat" where
  "update_one q f [] = ([], 0)"
| "update_one q f (d # ds) =
     (if q d then (f d # ds, 1)
      else (d # fst (update_one q f ds), snd (update_one q f ds)))"

text \<open>
  \<^verbatim>\<open>collection.delete_one(query)\<close>: the first matching document is removed; the result
  is the collection and \<^verbatim>\<open>deleted_count\<close>.
\<close>

fun delete_one :: "('a \<Rightarrow> bool) \<Rightarrow> 'a list \<Rightarrow> 'a list \<times> nat" where
  "delete_one q [] = ([], 0)"
| "delete_one q (d # ds) =
     (if q d then (ds, 1)
      else (d # fst (delete_one q ds), snd (delete_one q ds)))"

text \<open>
  Modelled from the spec: \<^verbatim>\<open>create_document\<close> of \<^verbatim>\<open>database.py\<close>, which is not
  among the sources. The spec says of it that it persists a new record and that the
  caller receives the identifier as a string: the document is appended to its collection
  under the identifier \<open>new_id\<close> that the database assigns, and the identifier is returned
  as a string.
\<close>

definition create_document :: "'a document list \<Rightarrow> 'a \<Rightarrow> object_id \<Rightarrow> string \<times> 'a document list" where
  "create_document coll data new_id =
     (str_oid new_id, coll @ [\<lparr>doc_id = new_id, doc = data, updated_at = None\<rparr>])"

subsection \<open>What a call reads from outside\<close>

text \<open>
  \<open>sha256_hexdigest\<close> is \<^verbatim>\<open>hashlib.sha256(b).hexdigest()\<close>, \<open>SECRET_KEY\<close> the value of the
  environment variable or its default, \<open>time_time\<close> is \<^verbatim>\<open>int(time.time())\<close>,
  \<open>token_hex\<close> is \<^verbatim>\<open>secrets.token_hex(32)\<close>, \<open>inserted_id\<close> the identifier given to
  the user, game or order that the call inserts and \<open>session_inserted_id\<close> the one given
  to the session it inserts.
\<close>

record env =
  sha256_hexdigest :: "string \<Rightarrow> string"
  SECRET_KEY :: string
  time_time :: int
  token_hex :: string
  inserted_id :: object_id
  session_inserted_id :: object_id

section \<open>Utilities of \<^verbatim>\<open>main.py\<close>\<close>

definition SESSION_TTL_SECONDS :: int where
  "SESSION_TTL_SECONDS = 7 * 24 * 3600"

definition hash_password :: "env \<Rightarrow> string \<Rightarrow> string" where
  "hash_password e password = sha256_hexdigest e (SECRET_KEY e @ password)"

definition create_session :: "env \<Rightarrow> db \<Rightarrow> string \<Rightarrow> string \<times> db" where
  "create_session e d user_id =
     (let token = token_hex e;
          expires_at = time_time e + SESSION_TTL_SECONDS;
          data = \<lparr>s_user_id = user_id, s_token = token, s_expires_at = expires_at\<rparr>
      in (token, d\<lparr>COL_SESSION := snd (create_document (COL_SESSION d) data (session_inserted_id e))\<rparr>))"

definition get_current_user :: "env \<Rightarrow> db \<Rightarrow> string option \<Rightarrow> exn + User document option" where
  "get_current_user e d authorization =
     (case authorization of
        None \<Rightarrow> Inr None
      | Some a \<Rightarrow>
          if a = [] \<or> \<not> startswith (lower a) ''bearer '' then Inr None
          else
            (case index_1 (split_space_1 a) of
               Inl err \<Rightarrow> Inl err
             | Inr token \<Rightarrow>
                 (case find_one (\<lambda>s. s_token (doc s) = token) (COL_SESSION d) of
                    None \<Rightarrow> Inr None
                  | Some sess \<Rightarrow>
                      if time_time e > s_expires_at (doc sess) then Inr None
                      else if ObjectId_is_valid (s_user_id (doc sess)) then
                        (case oid (s_user_id (doc sess)) of
                           Inl err \<Rightarrow> Inl err
                         | Inr i \<Rightarrow> Inr (find_one (\<lambda>u. doc_id u = i) (COL_USER d)))
                      else Inr None)))"

definition require_admin :: "User document option \<Rightarrow> exn + User document" where
  "require_admin user =
     (case user of
        None \<Rightarrow> Inl (HTTPException 401 ''Unauthorized'')
      | Some u \<Rightarrow>
          if u_role (doc u) \<noteq> ''admin'' then Inl (HTTPException 403 ''Admin access required'')
          else Inr u)"

section \<open>Authentication endpoints\<close>

definition register :: "env \<Rightarrow> db \<Rightarrow> RegisterRequest \<Rightarrow> exn + TokenResponse \<times> db" where
  "register e d payload =
     (case find_one (\<lambda>u. u_email (doc u) = lower (rr_email payload)) (COL_USER d) of
        Some existing \<Rightarrow> Inl (HTTPException 400 ''Email already registered'')
      | None \<Rightarrow>
          (let user_doc = \<lparr>u_name = rr_name payload,
                           u_email = lower (rr_email payload),
                           u_password_hash = hash_password e (rr_password payload),
                           u_role = ''user'',
                           u_is_active = True\<rparr>;
               created = create_document (COL_USER d) user_doc (inserted_id e);
               user_id = fst created;
               issued = create_session e (d\<lparr>COL_USER := snd created\<rparr>) user_id
           in Inr (\<lparr>tr_token = fst issued, tr_role = ''user'', tr_name = rr_name payload,
                    tr_email = lower (rr_email payload)\<rparr>, snd issued)))"

definition login :: "env \<Rightarrow> db \<Rightarrow> LoginRequest \<Rightarrow> exn + TokenResponse \<times> db" where
  "login e d payload =
     (case find_one (\<lambda>u. u_email (doc u) = lower (lr_email payload)) (COL_USER d) of
        None \<Rightarrow> Inl (HTTPException 401 ''Invalid email or password'')
      | Some user \<Rightarrow>
          if u_password_hash (doc user) \<noteq> hash_password e (lr_password payload)
          then Inl (HTTPException 401 ''Invalid email or password'')
          else
            (let issued = create_session e d (str_oid (doc_id user))
             in Inr (\<lparr>tr_token = fst issued, tr_role = u_role (doc user),
                      tr_name = u_name (doc user), tr_email = u_email (doc user)\<rparr>, snd issued)))"

text \<open>
  The user document as the Python dictionary that \<^verbatim>\<open>find_one\<close> hands to the handler,
  and the two dictionary operations that \<^verbatim>\<open>me\<close> applies to it.
\<close>

datatype json = JNone | JBool bool | JInt int | JStr string | JOid object_id

definition user_dict :: "User document \<Rightarrow> (string \<times> json) list" where
  "user_dict u =
     [(''_id'', JOid (doc_id u)),
      (''name'', JStr (u_name (doc u))),
      (''email'', JStr (u_email (doc u))),
      (''password_hash'', JStr (u_password_hash (doc u))),
      (''role'', JStr (u_role (doc u))),
      (''is_active'', JBool (u_is_active (doc u)))]"

definition dict_setitem :: "string \<Rightarrow> json \<Rightarrow> (string \<times> json) list \<Rightarrow> (string \<times> json) list" where
  "dict_setitem k v dict =
     (if k \<in> fst ` set dict then map (\<lambda>kv. if fst kv = k then (k, v) else kv) dict
      else dict @ [(k, v)])"

definition dict_pop :: "string \<Rightarrow> (string \<times> json) list \<Rightarrow> (string \<times> json) list" where
  "dict_pop k dict = filter (\<lambda>kv. fst kv \<noteq> k) dict"

definition me :: "User document option \<Rightarrow> exn + (string \<times> json) list" where
  "me user =
     (case user of
        None \<Rightarrow> Inl (HTTPException 401 ''Unauthorized'')
      | Some u \<Rightarrow>
          Inr (dict_pop ''password_hash''
                 (dict_setitem ''_id'' (JStr (str_oid (doc_id u))) (user_dict u))))"

section \<open>Games\<close>

definition get_game :: "db \<Rightarrow> string \<Rightarrow> exn + Game document" where
  "get_game d game_id =
     (case oid game_id of
        Inl err \<Rightarrow> Inl err
      | Inr i \<Rightarrow>
          (case find_one (\<lambda>g. doc_id g = i) (COL_GAME d) of
             None \<Rightarrow> Inl (HTTPException 404 ''Game not found'')
           | Some game \<Rightarrow> Inr game))"

text \<open>
  \<^verbatim>\<open>GameSchema\<close> constrains \<open>price\<close> with \<^verbatim>\<open>ge=0\<close>, the request body does not: a
  negative price fails when the handler builds the schema object.
\<close>

definition create_game :: "env \<Rightarrow> db \<Rightarrow> GameCreateRequest \<Rightarrow> User document \<Rightarrow> exn + string \<times> db" where
  "create_game e d payload user =
     (if gc_price payload < 0 then Inl ValidationError
      else
        (let game = \<lparr>g_title = gc_title payload,
                     g_platform = gc_platform payload,
                     g_description = gc_description payload,
                     g_price = gc_price payload,
                     g_images = (if gc_images payload = [] then [] else gc_images payload),
                     g_category = gc_category payload,
                     g_in_stock = gc_in_stock payload\<rparr>;
             created = create_document (COL_GAME d) game (inserted_id e)
         in Inr (fst created, d\<lparr>COL_GAME := snd created\<rparr>)))"

text \<open>
  \<^verbatim>\<open>updates\<close> of \<^verbatim>\<open>update_game\<close> holds the fields of the body that are not
  \<^verbatim>\<open>None\<close>: \<open>no_updates\<close> says that the dictionary is empty, \<open>set_updates\<close> is the
  \<^verbatim>\<open>$set\<close> of the dictionary after \<^verbatim>\<open>updated_at\<close> has been added to it.
\<close>

definition no_updates :: "GameUpdateRequest \<Rightarrow> bool" where
  "no_updates payload =
     (gu_title payload = None \<and> gu_platform payload = None \<and> gu_price payload = None \<and>
      gu_description payload = None \<and> gu_images payload = None \<and>
      gu_category payload = None \<and> gu_in_stock payload = None)"

definition set_updates :: "GameUpdateRequest \<Rightarrow> int \<Rightarrow> Game document \<Rightarrow> Game document" where
  "set_updates payload now g =
     \<lparr>doc_id = doc_id g,
      doc = \<lparr>g_title = (case gu_title payload of None \<Rightarrow> g_title (doc g) | Some v \<Rightarrow> v),
             g_platform = (case gu_platform payload of None \<Rightarrow> g_platform (doc g) | Some v \<Rightarrow> v),
             g_description =
               (case gu_description payload of None \<Rightarrow> g_description (doc g) | Some v \<Rightarrow> Some v),
             g_price = (case gu_price payload of None \<Rightarrow> g_price (doc g) | Some v \<Rightarrow> v),
             g_images = (case gu_images payload of None \<Rightarrow> g_images (doc g) | Some v \<Rightarrow> v),
             g_category =
               (case gu_category payload of None \<Rightarrow> g_category (doc g) | Some v \<Rightarrow> Some v),
             g_in_stock = (case gu_in_stock payload of None \<Rightarrow> g_in_stock (doc g) | Some v \<Rightarrow> v)\<rparr>,
      updated_at = Some now\<rparr>"

definition update_game :: "env \<Rightarrow> db \<Rightarrow> string \<Rightarrow> GameUpdateRequest \<Rightarrow> User document \<Rightarrow> exn + bool \<times> db" where
  "update_game e d game_id payload user =
     (if no_updates payload then Inr (False, d)
      else
        (case oid game_id of
           Inl err \<Rightarrow> Inl err
         | Inr i \<Rightarrow>
             (let res = update_one (\<lambda>g. doc_id g = i) (set_updates payload (time_time e)) (COL_GAME d)
              in if snd res = 0 then Inl (HTTPException 404 ''Game not found'')
                 else Inr (True, d\<lparr>COL_GAME := fst res\<rparr>))))"

definition delete_game :: "db \<Rightarrow> string \<Rightarrow> User document \<Rightarrow> exn + bool \<times> db" where
  "delete_game d game_id user =
     (case oid game_id of
        Inl err \<Rightarrow> Inl err
      | Inr i \<Rightarrow>
          (let res = delete_one (\<lambda>g. doc_id g = i) (COL_GAME d)
           in if snd res = 0 then Inl (HTTPException 404 ''Game not found'')
              else Inr (True, d\<lparr>COL_GAME := fst res\<rparr>)))"

section \<open>Orders\<close>

definition create_order ::
  "env \<Rightarrow> db \<Rightarrow> CreateOrderRequest \<Rightarrow> User document option \<Rightarrow> exn + (string \<times> string) \<times> db" where
  "create_order e d payload user =
     (case oid (co_game_id payload) of
        Inl err \<Rightarrow> Inl err
      | Inr i \<Rightarrow>
          (case find_one (\<lambda>g. doc_id g = i) (COL_GAME d) of
             None \<Rightarrow> Inl (HTTPException 404 ''Game not found'')
           | Some game \<Rightarrow>
               (case find_one (\<lambda>x. o_transaction_id (doc x) = co_transaction_id payload) (COL_ORDER d) of
                  Some dup \<Rightarrow> Inl (HTTPException 400 ''Transaction ID already used'')
                | None \<Rightarrow>
                    (let order = \<lparr>o_user_id = (case user of None \<Rightarrow> None
                                                | Some u \<Rightarrow> Some (str_oid (doc_id u))),
                                  o_game_id = co_game_id payload,
                                  o_transaction_id = co_transaction_id payload,
                                  o_payment_method = ''NAGAD'',
                                  o_delivery_email = co_delivery_email payload,
                                  o_status = ''pending''\<rparr>;
                         created = create_document (COL_ORDER d) order (inserted_id e)
                     in Inr ((fst created,
                              ''Order placed. Delivery within 2 hours after verification.''),
                             d\<lparr>COL_ORDER := snd created\<rparr>)))))"

definition my_orders :: "db \<Rightarrow> User document option \<Rightarrow> exn + Order document list" where
  "my_orders d user =
     (case user of
        None \<Rightarrow> Inl (HTTPException 401 ''Unauthorized'')
      | Some u \<Rightarrow> Inr (filter (\<lambda>x. o_user_id (doc x) = Some (str_oid (doc_id u))) (COL_ORDER d)))"

definition admin_list_orders :: "db \<Rightarrow> string option \<Rightarrow> User document \<Rightarrow> exn + Order document list" where
  "admin_list_orders d status user =
     (case status of
        None \<Rightarrow> Inr (take 100 (COL_ORDER d))
      | Some st \<Rightarrow>
          if st = [] then Inr (take 100 (COL_ORDER d))
          else Inr (take 100 (filter (\<lambda>x. o_status (doc x) = st) (COL_ORDER d))))"

definition set_status :: "string \<Rightarrow> int \<Rightarrow> Order document \<Rightarrow> Order document" where
  "set_status st now x =
     \<lparr>doc_id = doc_id x,
      doc = \<lparr>o_user_id = o_user_id (doc x), o_game_id = o_game_id (doc x),
             o_transaction_id = o_transaction_id (doc x),
             o_payment_method = o_payment_method (doc x),
             o_delivery_email = o_delivery_email (doc x), o_status = st\<rparr>,
      updated_at = Some now\<rparr>"

definition update_order_status :: "env \<Rightarrow> db \<Rightarrow> string \<Rightarrow> string \<Rightarrow> User document \<Rightarrow> exn + bool \<times> db" where
  "update_order_status e d order_id status user =
     (if status \<notin> set [''pending'', ''verified'', ''delivered'', ''cancelled'']
      then Inl (HTTPException 400 ''Invalid status'')
      else
        (case oid order_id of
           Inl err \<Rightarrow> Inl err
         | Inr i \<Rightarrow>
             (let res = update_one (\<lambda>x. doc_id x = i) (set_status status (time_time e)) (COL_ORDER d)
              in if snd res = 0 then Inl (HTTPException 404 ''Order not found'')
                 else Inr (True, d\<lparr>COL_ORDER := fst res\<rparr>))))"

section \<open>Routes: the handlers behind their dependencies\<close>

text \<open>
  FastAPI resolves \<^verbatim>\<open>Depends(get_current_user)\<close> and \<^verbatim>\<open>Depends(require_admin)\<close>
  from the \<^verbatim>\<open>Authorization\<close> header before it calls the handler; an exception of the
  dependency is the response.
\<close>

definition depends_require_admin :: "env \<Rightarrow> db \<Rightarrow> string option \<Rightarrow> exn + User document" where
  "depends_require_admin e d authorization =
     (case get_current_user e d authorization of
        Inl err \<Rightarrow> Inl err
      | Inr user \<Rightarrow> require_admin user)"

definition GET_me :: "env \<Rightarrow> db \<Rightarrow> string option \<Rightarrow> exn + (string \<times> json) list" where
  "GET_me e d authorization =
     (case get_current_user e d authorization of Inl err \<Rightarrow> Inl err | Inr user \<Rightarrow> me user)"

definition POST_admin_games ::
  "env \<Rightarrow> db \<Rightarrow> string option \<Rightarrow> GameCreateRequest \<Rightarrow> exn + string \<times> db" where
  "POST_admin_games e d authorization payload =
     (case depends_require_admin e d authorization of
        Inl err \<Rightarrow> Inl err
      | Inr user \<Rightarrow> create_game e d payload user)"

definition PUT_admin_games ::
  "env \<Rightarrow> db \<Rightarrow> string option \<Rightarrow> string \<Rightarrow> GameUpdateRequest \<Rightarrow> exn + bool \<times> db" where
  "PUT_admin_games e d authorization game_id payload =
     (case depends_require_admin e d authorization of
        Inl err \<Rightarrow> Inl err
      | Inr user \<Rightarrow> update_game e d game_id payload user)"

definition DELETE_admin_games :: "env \<Rightarrow> db \<Rightarrow> string option \<Rightarrow> string \<Rightarrow> exn + bool \<times> db" where
  "DELETE_admin_games e d authorization game_id =
     (case depends_require_admin e d authorization of
        Inl err \<Rightarrow> Inl err
      | Inr user \<Rightarrow> delete_game d game_id user)"

definition POST_orders ::
  "env \<Rightarrow> db \<Rightarrow> string option \<Rightarrow> CreateOrderRequest \<Rightarrow> exn + (string \<times> string) \<times> db" where
  "POST_orders e d authorization payload =
     (case get_current_user e d authorization of
        Inl err \<Rightarrow> Inl err
      | Inr user \<Rightarrow> create_order e d payload user)"

definition GET_orders_mine :: "env \<Rightarrow> db \<Rightarrow> string option \<Rightarrow> exn + Order document list" where
  "GET_orders_mine e d authorization =
     (case get_current_user e d authorization of Inl err \<Rightarrow> Inl err | Inr user \<Rightarrow> my_orders d user)"

definition GET_admin_orders ::
  "env \<Rightarrow> db \<Rightarrow> string option \<Rightarrow> string option \<Rightarrow> exn + Order document list" where
  "GET_admin_orders e d authorization status =
     (case depends_require_admin e d authorization of
        Inl err \<Rightarrow> Inl err
      | Inr user \<Rightarrow> admin_list_orders d status user)"

definition POST_admin_orders_status ::
  "env \<Rightarrow> db \<Rightarrow> string option \<Rightarrow> string \<Rightarrow> string \<Rightarrow> exn + bool \<times> db" where
  "POST_admin_orders_status e d authorization order_id status =
     (case depends_require_admin e d authorization of
        Inl err \<Rightarrow> Inl err
      | Inr user \<Rightarrow> update_order_status e d order_id status user)"

section \<open>Sequences of calls\<close>

text \<open>
  One constructor for each route of the application. The routes \<^verbatim>\<open>/\<close>,
  \<^verbatim>\<open>/test\<close>, \<^verbatim>\<open>/schema\<close>, \<^verbatim>\<open>GET /games\<close>, \<^verbatim>\<open>GET /games/{id}\<close>, \<^verbatim>\<open>/me\<close>,
  \<^verbatim>\<open>/orders/mine\<close> and \<^verbatim>\<open>/admin/orders\<close> only read the database.
\<close>

datatype request =
    Root
  | Test
  | Schema
  | Register RegisterRequest
  | Login LoginRequest
  | Me
  | ListGames "string option" "string option" "string option"
  | GetGame string
  | CreateGame GameCreateRequest
  | UpdateGame string GameUpdateRequest
  | DeleteGame string
  | CreateOrder CreateOrderRequest
  | MyOrders
  | AdminListOrders "string option"
  | UpdateOrderStatus string string

text \<open>The database after a handler has answered: only a handler that returns has written.\<close>

definition db_after :: "db \<Rightarrow> exn + 'a \<times> db \<Rightarrow> db" where
  "db_after d r = (case r of Inl err \<Rightarrow> d | Inr res \<Rightarrow> snd res)"

fun api_call :: "env \<Rightarrow> string option \<Rightarrow> request \<Rightarrow> db \<Rightarrow> db" where
  "api_call e a (Register payload) d = db_after d (register e d payload)"
| "api_call e a (Login payload) d = db_after d (login e d payload)"
| "api_call e a (CreateGame payload) d = db_after d (POST_admin_games e d a payload)"
| "api_call e a (UpdateGame game_id payload) d = db_after d (PUT_admin_games e d a game_id payload)"
| "api_call e a (DeleteGame game_id) d = db_after d (DELETE_admin_games e d a game_id)"
| "api_call e a (CreateOrder payload) d = db_after d (POST_orders e d a payload)"
| "api_call e a (UpdateOrderStatus order_id status) d =
     db_after d (POST_admin_orders_status e d a order_id status)"
| "api_call e a Root d = d"
| "api_call e a Test d = d"
| "api_call e a Schema d = d"
| "api_call e a Me d = d"
| "api_call e a (ListGames search platform category) d = d"
| "api_call e a (GetGame game_id) d = d"
| "api_call e a MyOrders d = d"
| "api_call e a (AdminListOrders status) d = d"

fun run :: "db \<Rightarrow> (env \<times> string option \<times> request) list \<Rightarrow> db" where
  "run d [] = d"
| "run d ((e, a, r) # calls) = run (api_call e a r d) calls"

section \<open>The store calls that a handler makes\<close>

text \<open>
  The handlers that take an identifier, and the authenticator in front of them, once
  more, now returning beside the response the calls on the database in the order in
  which the source makes them: the collection (\<^verbatim>\<open>COL_USER = "user"\<close>,
  \<^verbatim>\<open>COL_GAME = "game"\<close>, \<^verbatim>\<open>COL_ORDER = "order"\<close>, \<^verbatim>\<open>COL_SESSION = "session"\<close>)
  and what the filter selects by. A handler that raises in the middle has made the calls
  before the raise. The responses are those of the definitions above.
\<close>

datatype selector = By_id object_id | By_field string string

datatype store_call =
    Find_one string selector
  | Update_one string selector
  | Delete_one string selector
  | Insert_one string

definition get_current_user_traced ::
  "env \<Rightarrow> db \<Rightarrow> string option \<Rightarrow> (exn + User document option) \<times> store_call list" where
  "get_current_user_traced e d authorization =
     (case authorization of
        None \<Rightarrow> (Inr None, [])
      | Some a \<Rightarrow>
          if a = [] \<or> \<not> startswith (lower a) ''bearer '' then (Inr None, [])
          else
            (case index_1 (split_space_1 a) of
               Inl err \<Rightarrow> (Inl err, [])
             | Inr token \<Rightarrow>
                 (case find_one (\<lambda>s. s_token (doc s) = token) (COL_SESSION d) of
                    None \<Rightarrow> (Inr None, [Find_one ''session'' (By_field ''token'' token)])
                  | Some sess \<Rightarrow>
                      if time_time e > s_expires_at (doc sess)
                      then (Inr None, [Find_one ''session'' (By_field ''token'' token)])
                      else if ObjectId_is_valid (s_user_id (doc sess)) then
                        (case oid (s_user_id (doc sess)) of
                           Inl err \<Rightarrow> (Inl err, [Find_one ''session'' (By_field ''token'' token)])
                         | Inr i \<Rightarrow>
                             (Inr (find_one (\<lambda>u. doc_id u = i) (COL_USER d)),
                              [Find_one ''session'' (By_field ''token'' token),
                               Find_one ''user'' (By_id i)]))
                      else (Inr None, [Find_one ''session'' (By_field ''token'' token)]))))"

definition get_game_traced :: "db \<Rightarrow> string \<Rightarrow> (exn + Game document) \<times> store_call list" where
  "get_game_traced d game_id =
     (case oid game_id of
        Inl err \<Rightarrow> (Inl err, [])
      | Inr i \<Rightarrow>
          (case find_one (\<lambda>g. doc_id g = i) (COL_GAME d) of
             None \<Rightarrow> (Inl (HTTPException 404 ''Game not found''), [Find_one ''game'' (By_id i)])
           | Some game \<Rightarrow> (Inr game, [Find_one ''game'' (By_id i)])))"

definition update_game_traced ::
  "env \<Rightarrow> db \<Rightarrow> string \<Rightarrow> GameUpdateRequest \<Rightarrow> User document \<Rightarrow>
     (exn + bool \<times> db) \<times> store_call list" where
  "update_game_traced e d game_id payload user =
     (if no_updates payload then (Inr (False, d), [])
      else
        (case oid game_id of
           Inl err \<Rightarrow> (Inl err, [])
         | Inr i \<Rightarrow>
             (let res = update_one (\<lambda>g. doc_id g = i) (set_updates payload (time_time e)) (COL_GAME d)
              in if snd res = 0
                 then (Inl (HTTPException 404 ''Game not found''), [Update_one ''game'' (By_id i)])
                 else (Inr (True, d\<lparr>COL_GAME := fst res\<rparr>), [Update_one ''game'' (By_id i)]))))"

definition delete_game_traced ::
  "db \<Rightarrow> string \<Rightarrow> User document \<Rightarrow> (exn + bool \<times> db) \<times> store_call list" where
  "delete_game_traced d game_id user =
     (case oid game_id of
        Inl err \<Rightarrow> (Inl err, [])
      | Inr i \<Rightarrow>
          (let res = delete_one (\<lambda>g. doc_id g = i) (COL_GAME d)
           in if snd res = 0
              then (Inl (HTTPException 404 ''Game not found''), [Delete_one ''game'' (By_id i)])
              else (Inr (True, d\<lparr>COL_GAME := fst res\<rparr>), [Delete_one ''game'' (By_id i)])))"

definition create_order_traced ::
  "env \<Rightarrow> db \<Rightarrow> CreateOrderRequest \<Rightarrow> User document option \<Rightarrow>
     (exn + (string \<times> string) \<times> db) \<times> store_call list" where
  "create_order_traced e d payload user =
     (case oid (co_game_id payload) of
        Inl err \<Rightarrow> (Inl err, [])
      | Inr i \<Rightarrow>
          (case find_one (\<lambda>g. doc_id g = i) (COL_GAME d) of
             None \<Rightarrow> (Inl (HTTPException 404 ''Game not found''), [Find_one ''game'' (By_id i)])
           | Some game \<Rightarrow>
               (case find_one (\<lambda>x. o_transaction_id (doc x) = co_transaction_id payload) (COL_ORDER d) of
                  Some dup \<Rightarrow>
                    (Inl (HTTPException 400 ''Transaction ID already used''),
                     [Find_one ''game'' (By_id i),
                      Find_one ''order'' (By_field ''transaction_id'' (co_transaction_id payload))])
                | None \<Rightarrow>
                    (let order = \<lparr>o_user_id = (case user of None \<Rightarrow> None
                                                | Some u \<Rightarrow> Some (str_oid (doc_id u))),
                                  o_game_id = co_game_id payload,
                                  o_transaction_id = co_transaction_id payload,
                                  o_payment_method = ''NAGAD'',
                                  o_delivery_email = co_delivery_email payload,
                                  o_status = ''pending''\<rparr>;
                         created = create_document (COL_ORDER d) order (inserted_id e)
                     in (Inr ((fst created,
                               ''Order placed. Delivery within 2 hours after verification.''),
                              d\<lparr>COL_ORDER := snd created\<rparr>),
                         [Find_one ''game'' (By_id i),
                          Find_one ''order'' (By_field ''transaction_id'' (co_transaction_id payload)),
                          Insert_one ''order''])))))"

definition update_order_status_traced ::
  "env \<Rightarrow> db \<Rightarrow> string \<Rightarrow> string \<Rightarrow> User document \<Rightarrow> (exn + bool \<times> db) \<times> store_call list" where
  "update_order_status_traced e d order_id status user =
     (if status \<notin> set [''pending'', ''verified'', ''delivered'', ''cancelled'']
      then (Inl (HTTPException 400 ''Invalid status''), [])
      else
        (case oid order_id of
           Inl err \<Rightarrow> (Inl err, [])
         | Inr i \<Rightarrow>
             (let res = update_one (\<lambda>x. doc_id x = i) (set_status status (time_time e)) (COL_ORDER d)
              in if snd res = 0
                 then (Inl (HTTPException 404 ''Order not found''), [Update_one ''order'' (By_id i)])
                 else (Inr (True, d\<lparr>COL_ORDER := fst res\<rparr>), [Update_one ''order'' (By_id i)]))))"

text \<open>
  A route runs its dependency, then the handler: the calls of the handler follow those
  of the dependency, and a dependency that raises ends the request.
\<close>

definition after_dependency ::
  "(exn + 'u) \<times> store_call list \<Rightarrow> ('u \<Rightarrow> (exn + 'r) \<times> store_call list) \<Rightarrow>
     (exn + 'r) \<times> store_call list" where
  "after_dependency dependency handler =
     (case fst dependency of
        Inl err \<Rightarrow> (Inl err, snd dependency)
      | Inr v \<Rightarrow> (fst (handler v), snd dependency @ snd (handler v)))"

definition depends_require_admin_traced ::
  "env \<Rightarrow> db \<Rightarrow> string option \<Rightarrow> (exn + User document) \<times> store_call list" where
  "depends_require_admin_traced e d authorization =
     (case fst (get_current_user_traced e d authorization) of
        Inl err \<Rightarrow> (Inl err, snd (get_current_user_traced e d authorization))
      | Inr user \<Rightarrow> (require_admin user, snd (get_current_user_traced e d authorization)))"

definition PUT_admin_games_traced ::
  "env \<Rightarrow> db \<Rightarrow> string option \<Rightarrow> string \<Rightarrow> GameUpdateRequest \<Rightarrow>
     (exn + bool \<times> db) \<times> store_call list" where
  "PUT_admin_games_traced e d authorization game_id payload =
     after_dependency (depends_require_admin_traced e d authorization)
       (update_game_traced e d game_id payload)"

definition DELETE_admin_games_traced ::
  "env \<Rightarrow> db \<Rightarrow> string option \<Rightarrow> string \<Rightarrow> (exn + bool \<times> db) \<times> store_call list" where
  "DELETE_admin_games_traced e d authorization game_id =
     after_dependency (depends_require_admin_traced e d authorization)
       (delete_game_traced d game_id)"

definition POST_orders_traced ::
  "env \<Rightarrow> db \<Rightarrow> string option \<Rightarrow> CreateOrderRequest \<Rightarrow>
     (exn + (string \<times> string) \<times> db) \<times> store_call list" where
  "POST_orders_traced e d authorization payload =
     after_dependency (get_current_user_traced e d authorization)
       (create_order_traced e d payload)"

definition POST_admin_orders_status_traced ::
  "env \<Rightarrow> db \<Rightarrow> string option \<Rightarrow> string \<Rightarrow> string \<Rightarrow> (exn + bool \<times> db) \<times> store_call list" where
  "POST_admin_orders_status_traced e d authorization order_id status =
     after_dependency (depends_require_admin_traced e d authorization)
       (update_order_status_traced e d order_id status)"


section \<open>Vocabulary of the properties and example data\<close>

text \<open>\<open>raises r code\<close>: the response \<open>r\<close> is an \<^verbatim>\<open>HTTPException\<close> with that status code.\<close>

definition raises :: "exn + 'a \<Rightarrow> nat \<Rightarrow> bool" where
  "raises r code = (case r of Inl (HTTPException c msg) \<Rightarrow> c = code | _ \<Rightarrow> False)"

abbreviation admin_only :: "env \<Rightarrow> db \<Rightarrow> string option \<Rightarrow> exn + 'a \<Rightarrow> bool" where
  "admin_only e d a response \<equiv>
     (get_current_user e d a = Inr None \<longrightarrow> response = Inl (HTTPException 401 ''Unauthorized'')) \<and>
     (\<forall>u. get_current_user e d a = Inr (Some u) \<and> u_role (doc u) \<noteq> ''admin'' \<longrightarrow>
          response = Inl (HTTPException 403 ''Admin access required'')) \<and>
     (raises response 403 \<longrightarrow>
          (\<exists>u. get_current_user e d a = Inr (Some u) \<and> u_role (doc u) \<noteq> ''admin''))"

definition ex_uid :: object_id where
  "ex_uid = ObjectId ''0123456789abcdef01234567''"

definition ex_env :: env where
  "ex_env = \<lparr>sha256_hexdigest = rev, SECRET_KEY = ''dev-secret-key'', time_time = 1000,
             token_hex = ''c0ffee'', inserted_id = ObjectId ''aaaaaaaaaaaaaaaaaaaaaaaa'',
             session_inserted_id = ObjectId ''bbbbbbbbbbbbbbbbbbbbbbbb''\<rparr>"

definition ex_alice :: "User document" where
  "ex_alice = \<lparr>doc_id = ex_uid,
               doc = \<lparr>u_name = ''Alice'', u_email = ''alice@example.com'',
                      u_password_hash = ''drowssapyek-terces-ved'', u_role = ''user'',
                      u_is_active = True\<rparr>,
               updated_at = None\<rparr>"

definition ex_session :: "string \<Rightarrow> string \<Rightarrow> Session document" where
  "ex_session user_id tok =
     \<lparr>doc_id = ObjectId ''cccccccccccccccccccccccc'',
      doc = \<lparr>s_user_id = user_id, s_token = tok, s_expires_at = 5000\<rparr>,
      updated_at = None\<rparr>"

definition ex_root :: "User document" where
  "ex_root = \<lparr>doc_id = ObjectId ''000000000000000000000001'',
              doc = \<lparr>u_name = ''Root'', u_email = ''root@example.com'',
                     u_password_hash = ''toorek-terces-ved'', u_role = ''admin'',
                     u_is_active = True\<rparr>,
              updated_at = None\<rparr>"

definition ex_game :: "Game document" where
  "ex_game = \<lparr>doc_id = ObjectId ''111111111111111111111111'',
              doc = \<lparr>g_title = ''Chess'', g_platform = ''PC'', g_description = None,
                     g_price = 5, g_images = [], g_category = None, g_in_stock = True\<rparr>,
              updated_at = None\<rparr>"

definition ex_order :: "Order document" where
  "ex_order = \<lparr>doc_id = ObjectId ''222222222222222222222222'',
               doc = \<lparr>o_user_id = None, o_game_id = ''111111111111111111111111'',
                      o_transaction_id = ''TX1'', o_payment_method = ''NAGAD'',
                      o_delivery_email = ''carol@example.com'', o_status = ''pending''\<rparr>,
               updated_at = None\<rparr>"

definition ex_db :: db where
  "ex_db = \<lparr>COL_USER = [ex_alice, ex_root], COL_GAME = [ex_game], COL_ORDER = [ex_order],
            COL_SESSION = [ex_session ''0123456789abcdef01234567'' ''t-alice'',
                           ex_session ''ffffffffffffffffffffffff'' ''t-gone'',
                           ex_session ''000000000000000000000001'' ''t-root'']\<rparr>"

definition ex_order_request :: "string \<Rightarrow> string \<Rightarrow> CreateOrderRequest" where
  "ex_order_request game_id tx =
     \<lparr>co_game_id = game_id, co_transaction_id = tx, co_delivery_email = ''carol@example.com''\<rparr>"

definition ex_register_request :: "string \<Rightarrow> RegisterRequest" where
  "ex_register_request email = \<lparr>rr_name = ''Bob'', rr_email = email, rr_password = ''pw''\<rparr>"

definition ex_no_updates :: GameUpdateRequest where
  "ex_no_updates = \<lparr>gu_title = None, gu_platform = None, gu_price = None,
                    gu_description = None, gu_images = None, gu_category = None,
                    gu_in_stock = None\<rparr>"

definition ex_new_title :: GameUpdateRequest where
  "ex_new_title = \<lparr>gu_title = Some ''Go'', gu_platform = None, gu_price = None,
                   gu_description = None, gu_images = None, gu_category = None,
                   gu_in_stock = None\<rparr>"

definition ex_later :: env where
  "ex_later = \<lparr>sha256_hexdigest = rev, SECRET_KEY = ''dev-secret-key'', time_time = 2000,
               token_hex = ''decaf'', inserted_id = ObjectId ''dddddddddddddddddddddddd'',
               session_inserted_id = ObjectId ''eeeeeeeeeeeeeeeeeeeeeeee''\<rparr>"

definition ex_plain :: db where
  "ex_plain = \<lparr>COL_USER = [ex_alice], COL_GAME = [ex_game], COL_ORDER = [],
               COL_SESSION = [ex_session ''0123456789abcdef01234567'' ''t-alice'']\<rparr>"

definition ex_calls :: "(env \<times> string option \<times> request) list" where
  "ex_calls =
     [(ex_env, None, Register (ex_register_request ''Bob@Example.COM'')),
      (ex_later, Some ''Bearer c0ffee'', DeleteGame ''111111111111111111111111''),
      (ex_later, None, Login \<lparr>lr_email = ''Bob@Example.COM'', lr_password = ''pw''\<rparr>)]"

definition ex_between :: env where
  "ex_between = \<lparr>sha256_hexdigest = rev, SECRET_KEY = ''dev-secret-key'', time_time = 1500,
                 token_hex = ''cab005e'', inserted_id = ObjectId ''121212121212121212121212'',
                 session_inserted_id = ObjectId ''343434343434343434343434''\<rparr>"

definition ex_carol_request :: RegisterRequest where
  "ex_carol_request =
     \<lparr>rr_name = ''Carol'', rr_email = ''Carol@Example.com'', rr_password = ''pw2''\<rparr>"


section \<open>Strings, identifiers and queries\<close>

lemma lower_char_is_space: "lower_char c = CHR '' '' \<Longrightarrow> c = CHR '' ''"
  by (auto simp: lower_char_def split: if_splits)

lemma lower_char_letter_not_space:
  "lower_char c = l \<Longrightarrow> l \<noteq> CHR '' '' \<Longrightarrow> c \<noteq> CHR '' ''"
  by (auto simp: lower_char_def)

lemma lower_append: "lower (xs @ ys) = lower xs @ lower ys"
  by (simp add: lower_def)

lemma bearer_shape:
  assumes "startswith (lower a) ''bearer ''"
  shows "\<exists>c0 c1 c2 c3 c4 c5 r. a = c0 # c1 # c2 # c3 # c4 # c5 # CHR '' '' # r \<and>
           CHR '' '' \<notin> set [c0, c1, c2, c3, c4, c5]"
proof -
  from assms have "length (take (length ''bearer '') (lower a)) = length ''bearer ''"
    by (simp only: startswith_def)
  then have "Suc (Suc (Suc (Suc (Suc (Suc (Suc 0)))))) \<le> length a"
    by (simp add: lower_def)
  then obtain c0 c1 c2 c3 c4 c5 c6 r where a: "a = c0 # c1 # c2 # c3 # c4 # c5 # c6 # r"
    by (auto simp: Suc_le_length_iff)
  from assms have l: "lower_char c0 = CHR ''b''" "lower_char c1 = CHR ''e''"
      "lower_char c2 = CHR ''a''" "lower_char c3 = CHR ''r''" "lower_char c4 = CHR ''e''"
      "lower_char c5 = CHR ''r''" "lower_char c6 = CHR '' ''"
    unfolding a by (simp_all add: startswith_def lower_def)
  have "c6 = CHR '' ''" using l(7) by (rule lower_char_is_space)
  moreover have "c0 \<noteq> CHR '' ''" "c1 \<noteq> CHR '' ''" "c2 \<noteq> CHR '' ''" "c3 \<noteq> CHR '' ''"
      "c4 \<noteq> CHR '' ''" "c5 \<noteq> CHR '' ''"
    using l(1-6) by (auto dest: lower_char_letter_not_space)
  ultimately show ?thesis using a by simp
qed

lemma bearer_token:
  assumes "startswith (lower a) ''bearer ''"
  shows "index_1 (split_space_1 a) = Inr (drop 7 a)"
proof -
  from bearer_shape [OF assms] obtain c0 c1 c2 c3 c4 c5 r where
    a: "a = c0 # c1 # c2 # c3 # c4 # c5 # CHR '' '' # r" and
    n: "CHR '' '' \<notin> set [c0, c1, c2, c3, c4, c5]" by blast
  show ?thesis using n by (subst (1 2) a) (auto simp: split_space_1_def)
qed

lemma lower_char_changes: "lower_char c \<noteq> c \<Longrightarrow> c \<in> set ''ABCDEFGHIJKLMNOPQRSTUVWXYZ''"
  by (auto simp: lower_char_def split: if_splits)

lemma digits_not_upper: "set ''0123456789abcdef'' \<inter> set ''ABCDEFGHIJKLMNOPQRSTUVWXYZ'' = {}"
  by simp

lemma lower_char_hex_digit: "c \<in> set ''0123456789abcdef'' \<Longrightarrow> lower_char c = c"
  using lower_char_changes [of c] digits_not_upper by blast

lemma lower_hex_digits:
  "list_all (\<lambda>c. c \<in> set ''0123456789abcdef'') s \<Longrightarrow> lower s = s"
  unfolding lower_def list_all_iff by (rule map_idI) (rule lower_char_hex_digit, blast)

lemma lower_digits_are_hex: "set ''0123456789abcdef'' \<subseteq> set ''0123456789abcdefABCDEF''"
  by simp

lemma digits_not_space:
  "set ''0123456789abcdef'' \<inter> set [CHR '' '', CHR 0x09, CHR 0x0A, CHR 0x0B, CHR 0x0C, CHR 0x0D] = {}"
  by simp

lemma hex_digit_facts:
  assumes "c \<in> set ''0123456789abcdef''"
  shows "is_hex_char c" and "\<not> is_space c"
  using assms lower_digits_are_hex digits_not_space
  unfolding is_hex_char_def is_space_def by blast+

lemma fromhex_digits:
  "list_all (\<lambda>c. c \<in> set ''0123456789abcdef'') s \<Longrightarrow> even (length s) \<Longrightarrow> fromhex s = Some s"
proof (induction s rule: fromhex.induct)
  case 1
  show ?case by simp
next
  case (2 c)
  then show ?case by simp
next
  case (3 c c' cs)
  from "3.prems" have c: "c \<in> set ''0123456789abcdef''" and c': "c' \<in> set ''0123456789abcdef''"
    and rest: "list_all (\<lambda>c. c \<in> set ''0123456789abcdef'') cs" "even (length cs)"
    by simp_all
  have "fromhex cs = Some cs"
    using "3.IH"(2) hex_digit_facts [OF c] hex_digit_facts [OF c'] rest by simp
  then show ?case
    using hex_digit_facts [OF c] hex_digit_facts [OF c'] lower_char_hex_digit [OF c]
      lower_char_hex_digit [OF c']
    by simp
qed

lemma fromhex_chars:
  "fromhex s = Some h \<Longrightarrow> \<forall>c\<in>set s. is_hex_char c \<or> is_space c"
proof (induction s arbitrary: h rule: fromhex.induct)
  case 1
  show ?case by simp
next
  case (2 c)
  then show ?case by (simp split: if_splits)
next
  case (3 c c' cs)
  show ?case
  proof (cases "is_space c")
    case True
    with "3.prems" "3.IH"(1) show ?thesis by simp
  next
    case False
    with "3.prems" obtain r where "is_hex_char c" "is_hex_char c'" "fromhex cs = Some r"
      by (auto split: if_splits)
    with False "3.IH"(2) show ?thesis by simp
  qed
qed

lemma ObjectId_of_wf: "wf_oid i \<Longrightarrow> ObjectId_of (str_oid i) = Some i"
  using fromhex_digits [of "hex i"] by (simp add: ObjectId_of_def wf_oid_def str_oid_def)

lemma wf_oid_valid: "wf_oid i \<Longrightarrow> ObjectId_is_valid (str_oid i)"
  using ObjectId_of_wf [of i] by (auto simp: ObjectId_is_valid_def wf_oid_def str_oid_def)

lemma oid_str_oid: "wf_oid i \<Longrightarrow> oid (str_oid i) = Inr i"
  by (simp add: oid_def ObjectId_of_wf)

lemma oid_Inr_valid: "oid s = Inr i \<Longrightarrow> ObjectId_is_valid s"
  by (auto simp: oid_def ObjectId_is_valid_def ObjectId_of_def split: option.splits if_splits)

lemma valid_oid_Inr: "ObjectId_is_valid s \<Longrightarrow> \<exists>i. oid s = Inr i"
  by (auto simp: oid_def ObjectId_is_valid_def)

lemma oid_Inl: "oid s = Inl err \<Longrightarrow> err = HTTPException 400 ''Invalid id format''"
  by (simp add: oid_def split: option.splits)

lemma oid_malformed:
  "length s \<noteq> 24 \<or> (\<exists>c\<in>set s. \<not> is_hex_char c \<and> \<not> is_space c) \<Longrightarrow>
   oid s = Inl (HTTPException 400 ''Invalid id format'')"
  using fromhex_chars [of s] by (cases "fromhex s") (auto simp: oid_def ObjectId_of_def)

lemmas oid_eval =
  oid_def ObjectId_of_def ObjectId_is_valid_def is_hex_char_def is_space_def lower_char_def

lemma find_one_append:
  "find_one q (xs @ ys) = (case find_one q xs of None \<Rightarrow> find_one q ys | Some x \<Rightarrow> Some x)"
  by (induction xs) (auto simp: find_one_def)

lemma find_one_None: "find_one q xs = None \<longleftrightarrow> (\<forall>x\<in>set xs. \<not> q x)"
  by (auto simp: find_one_def find_None_iff)


lemma startswith_nonempty: "startswith (lower a) ''bearer '' \<Longrightarrow> a \<noteq> []"
  by (auto simp: startswith_def lower_def)

lemma get_current_user_bearer:
  assumes "startswith (lower a) ''bearer ''"
  shows "get_current_user e d (Some a) =
     (case find_one (\<lambda>s. s_token (doc s) = drop 7 a) (COL_SESSION d) of
        None \<Rightarrow> Inr None
      | Some sess \<Rightarrow>
          if time_time e > s_expires_at (doc sess) then Inr None
          else if ObjectId_is_valid (s_user_id (doc sess))
          then (case oid (s_user_id (doc sess)) of
                  Inl err \<Rightarrow> Inl err
                | Inr i \<Rightarrow> Inr (find_one (\<lambda>u. doc_id u = i) (COL_USER d)))
          else Inr None)"
  using assms startswith_nonempty [OF assms] bearer_token [OF assms]
  by (simp add: get_current_user_def split: option.splits)

lemma get_current_user_not_bearer:
  "\<not> startswith (lower a) ''bearer '' \<Longrightarrow> get_current_user e d (Some a) = Inr None"
  by (simp add: get_current_user_def)

lemma get_current_user_total: "\<exists>r. get_current_user e d authorization = Inr r"
proof (cases authorization)
  case None
  then show ?thesis by (simp add: get_current_user_def)
next
  case (Some a)
  show ?thesis
  proof (cases "startswith (lower a) ''bearer ''")
    case True
    show ?thesis unfolding Some get_current_user_bearer [OF True]
      using valid_oid_Inr by (fastforce split: option.splits)
  next
    case False
    then show ?thesis unfolding Some by (simp add: get_current_user_not_bearer)
  qed
qed

lemma scheme_header:
  assumes "lower scheme = ''bearer ''"
  shows "startswith (lower (scheme @ t)) ''bearer ''" and "drop 7 (scheme @ t) = t"
proof -
  have "length (lower scheme) = 7" by (simp add: assms)
  then have len: "length scheme = 7" by (simp add: lower_def)
  show "startswith (lower (scheme @ t)) ''bearer ''"
    using assms by (simp add: startswith_def lower_append)
  show "drop 7 (scheme @ t) = t" using len by simp
qed

lemma create_session_fst: "fst (create_session e d user_id) = token_hex e"
  by (simp add: create_session_def Let_def)

lemma create_session_sessions:
  "COL_SESSION (snd (create_session e d user_id)) =
     COL_SESSION d @ [\<lparr>doc_id = session_inserted_id e,
                       doc = \<lparr>s_user_id = user_id, s_token = token_hex e,
                              s_expires_at = time_time e + SESSION_TTL_SECONDS\<rparr>,
                       updated_at = None\<rparr>]"
  by (simp add: create_session_def Let_def create_document_def)

lemma create_session_others:
  "COL_USER (snd (create_session e d user_id)) = COL_USER d"
  "COL_GAME (snd (create_session e d user_id)) = COL_GAME d"
  "COL_ORDER (snd (create_session e d user_id)) = COL_ORDER d"
  by (simp_all add: create_session_def Let_def)

lemma find_one_fresh_append:
  "\<forall>x\<in>set xs. \<not> q x \<Longrightarrow> q y \<Longrightarrow> find_one q (xs @ [y]) = Some y"
  by (induction xs) (simp_all add: find_one_def)

section \<open>Sessions and authentication\<close>

lemma create_session_then_authenticate:
  assumes fresh: "\<forall>s\<in>set (COL_SESSION d). s_token (doc s) \<noteq> token_hex e"
    and valid: "oid user_id = Inr i"
    and owner: "find_one (\<lambda>u. doc_id u = i) (COL_USER d) = Some owner"
    and scheme: "lower scheme = ''bearer ''"
  shows "get_current_user e' (snd (create_session e d user_id))
           (Some (scheme @ fst (create_session e d user_id))) =
         (if time_time e' \<le> time_time e + 604800 then Inr (Some owner) else Inr None)"
proof -
  let ?d' = "snd (create_session e d user_id)"
  let ?sess = "\<lparr>doc_id = session_inserted_id e,
                doc = \<lparr>s_user_id = user_id, s_token = token_hex e,
                       s_expires_at = time_time e + SESSION_TTL_SECONDS\<rparr>,
                updated_at = None\<rparr>"
  have found: "find_one (\<lambda>s. s_token (doc s) = token_hex e) (COL_SESSION ?d') = Some ?sess"
    unfolding create_session_sessions using fresh by (intro find_one_fresh_append) simp_all
  note v = oid_Inr_valid [OF valid]
  show ?thesis
    unfolding create_session_fst
      get_current_user_bearer [OF scheme_header(1) [OF scheme]] scheme_header(2) [OF scheme]
    using found v owner
    by (simp add: create_session_others valid SESSION_TTL_SECONDS_def)
qed


text \<open>
  Claim C1. A session that \<open>create_session\<close> issues at time \<open>T\<close> for an existing user
  authenticates its bearer token to that user at every time \<open>t \<le> T + 604800\<close> and to
  nobody at every later time; the instant of expiry itself is still valid. The token is
  assumed fresh (no stored session carries it) and the scheme may be written in any
  letter case.
\<close>

theorem session_valid_until_expiry:
  assumes fresh: "\<forall>s\<in>set (COL_SESSION d). s_token (doc s) \<noteq> token_hex e"
    and valid: "oid user_id = Inr i"
    and owner: "find_one (\<lambda>u. doc_id u = i) (COL_USER d) = Some owner"
    and scheme: "lower scheme = ''bearer ''"
  shows "get_current_user e' (snd (create_session e d user_id))
           (Some (scheme @ fst (create_session e d user_id))) =
         (if time_time e' \<le> time_time e + 604800 then Inr (Some owner) else Inr None)"
  using fresh valid owner scheme by (rule create_session_then_authenticate)

theorem session_valid_until_expiry_witness:
  "find_one (\<lambda>s. s_token (doc s) = token_hex ex_env) (COL_SESSION ex_db) = None \<and>
   oid ''0123456789ABCDEF01234567'' = Inr ex_uid \<and>
   find_one (\<lambda>u. doc_id u = ex_uid) (COL_USER ex_db) = Some ex_alice \<and>
   get_current_user (ex_env\<lparr>time_time := 1000 + 604800\<rparr>)
     (snd (create_session ex_env ex_db ''0123456789ABCDEF01234567''))
     (Some (''BEARER '' @ fst (create_session ex_env ex_db ''0123456789ABCDEF01234567''))) =
     Inr (Some ex_alice) \<and>
   get_current_user (ex_env\<lparr>time_time := 1000 + 604801\<rparr>)
     (snd (create_session ex_env ex_db ''0123456789ABCDEF01234567''))
     (Some (''BEARER '' @ fst (create_session ex_env ex_db ''0123456789ABCDEF01234567''))) =
     Inr None"
proof -
  have fresh: "\<forall>s\<in>set (COL_SESSION ex_db). s_token (doc s) \<noteq> token_hex ex_env"
    by (simp add: ex_db_def ex_env_def ex_session_def)
  have valid: "oid ''0123456789ABCDEF01234567'' = Inr ex_uid"
    by (simp add: oid_eval ex_uid_def)
  have owner: "find_one (\<lambda>u. doc_id u = ex_uid) (COL_USER ex_db) = Some ex_alice"
    by (simp add: find_one_def ex_db_def ex_alice_def)
  have scheme: "lower ''BEARER '' = ''bearer ''"
    by (simp add: lower_def lower_char_def)
  have t: "time_time ex_env = 1000" by (simp add: ex_env_def)
  have unused: "find_one (\<lambda>s. s_token (doc s) = token_hex ex_env) (COL_SESSION ex_db) = None"
    using fresh by (simp add: find_one_None)
  show ?thesis
    using unused valid owner
      session_valid_until_expiry [OF fresh valid owner scheme,
        of "ex_env\<lparr>time_time := 1000 + 604800\<rparr>"]
      session_valid_until_expiry [OF fresh valid owner scheme,
        of "ex_env\<lparr>time_time := 1000 + 604801\<rparr>"]
    by (simp add: t)
qed

text \<open>
  Claim C3. \<open>get_current_user\<close> returns no identity, and never an exception, when the
  header is absent, when it does not start with the bearer scheme compared without
  regard to case, when no stored session carries the presented token, and when the
  session's \<open>user_id\<close> resolves to no stored user. The presented token is what the source
  takes from the header, \<^verbatim>\<open>authorization.split(" ", 1)[1]\<close>. The last conjunct says
  that no header at all makes the function raise.
\<close>

theorem no_identity_cases:
  "get_current_user e d None = Inr None \<and>
   (\<not> startswith (lower a) ''bearer '' \<longrightarrow> get_current_user e d (Some a) = Inr None) \<and>
   (index_1 (split_space_1 a) = Inr token \<and>
      (\<forall>s\<in>set (COL_SESSION d). s_token (doc s) \<noteq> token) \<longrightarrow>
      get_current_user e d (Some a) = Inr None) \<and>
   (index_1 (split_space_1 a) = Inr token \<and>
      find_one (\<lambda>s. s_token (doc s) = token) (COL_SESSION d) = Some sess \<and>
      (\<forall>i. oid (s_user_id (doc sess)) = Inr i \<longrightarrow> (\<forall>u\<in>set (COL_USER d). doc_id u \<noteq> i)) \<longrightarrow>
      get_current_user e d (Some a) = Inr None) \<and>
   (\<exists>r. get_current_user e d authorization = Inr r)"
proof (intro conjI impI)
  show "get_current_user e d None = Inr None"
    by (simp add: get_current_user_def)
next
  assume "\<not> startswith (lower a) ''bearer ''"
  then show "get_current_user e d (Some a) = Inr None"
    by (rule get_current_user_not_bearer)
next
  assume h: "index_1 (split_space_1 a) = Inr token \<and>
    (\<forall>s\<in>set (COL_SESSION d). s_token (doc s) \<noteq> token)"
  then have "find_one (\<lambda>s. s_token (doc s) = token) (COL_SESSION d) = None"
    by (simp add: find_one_None)
  with h show "get_current_user e d (Some a) = Inr None"
    by (simp add: get_current_user_def)
next
  assume h: "index_1 (split_space_1 a) = Inr token \<and>
    find_one (\<lambda>s. s_token (doc s) = token) (COL_SESSION d) = Some sess \<and>
    (\<forall>i. oid (s_user_id (doc sess)) = Inr i \<longrightarrow> (\<forall>u\<in>set (COL_USER d). doc_id u \<noteq> i))"
  have "find_one (\<lambda>u. doc_id u = i) (COL_USER d) = None"
    if "oid (s_user_id (doc sess)) = Inr i" for i
    using h that by (simp add: find_one_None)
  with h valid_oid_Inr [of "s_user_id (doc sess)"]
  show "get_current_user e d (Some a) = Inr None"
    by (auto simp: get_current_user_def)
next
  show "\<exists>r. get_current_user e d authorization = Inr r"
    by (rule get_current_user_total)
qed


theorem no_identity_cases_witness:
  "\<not> startswith (lower ''Basic abc'') ''bearer '' \<and>
   get_current_user ex_env ex_db (Some ''Basic abc'') = Inr None \<and>
   index_1 (split_space_1 ''Bearer t-unknown'') = Inr ''t-unknown'' \<and>
   find_one (\<lambda>s. s_token (doc s) = ''t-unknown'') (COL_SESSION ex_db) = None \<and>
   get_current_user ex_env ex_db (Some ''Bearer t-unknown'') = Inr None \<and>
   index_1 (split_space_1 ''bearer t-gone'') = Inr ''t-gone'' \<and>
   find_one (\<lambda>s. s_token (doc s) = ''t-gone'') (COL_SESSION ex_db) =
     Some (ex_session ''ffffffffffffffffffffffff'' ''t-gone'') \<and>
   oid ''ffffffffffffffffffffffff'' = Inr (ObjectId ''ffffffffffffffffffffffff'') \<and>
   find_one (\<lambda>u. doc_id u = ObjectId ''ffffffffffffffffffffffff'') (COL_USER ex_db) = None \<and>
   get_current_user ex_env ex_db (Some ''bearer t-gone'') = Inr None"
proof -
  have h1: "\<not> startswith (lower ''Basic abc'') ''bearer ''"
    by (simp add: startswith_def lower_def lower_char_def)
  have h2: "index_1 (split_space_1 ''Bearer t-unknown'') = Inr ''t-unknown''"
    by (simp add: split_space_1_def)
  have h3: "\<forall>s\<in>set (COL_SESSION ex_db). s_token (doc s) \<noteq> ''t-unknown''"
    by (simp add: ex_db_def ex_session_def)
  have h4: "index_1 (split_space_1 ''bearer t-gone'') = Inr ''t-gone''"
    by (simp add: split_space_1_def)
  have h5: "find_one (\<lambda>s. s_token (doc s) = ''t-gone'') (COL_SESSION ex_db) =
     Some (ex_session ''ffffffffffffffffffffffff'' ''t-gone'')"
    by (simp add: find_one_def ex_db_def ex_session_def)
  have h6: "\<forall>i. oid (s_user_id (doc (ex_session ''ffffffffffffffffffffffff'' ''t-gone''))) = Inr i \<longrightarrow>
        (\<forall>u\<in>set (COL_USER ex_db). doc_id u \<noteq> i)"
    by (simp add: ex_session_def oid_eval ex_db_def ex_alice_def ex_root_def ex_uid_def)
  have h7: "oid ''ffffffffffffffffffffffff'' = Inr (ObjectId ''ffffffffffffffffffffffff'')"
    by (simp add: oid_eval)
  have h8: "find_one (\<lambda>u. doc_id u = ObjectId ''ffffffffffffffffffffffff'') (COL_USER ex_db) = None"
    by (simp add: find_one_def ex_db_def ex_alice_def ex_root_def ex_uid_def)
  have h9: "find_one (\<lambda>s. s_token (doc s) = ''t-unknown'') (COL_SESSION ex_db) = None"
    using h3 by (simp add: find_one_None)
  have r1: "get_current_user ex_env ex_db (Some ''Basic abc'') = Inr None"
    by (rule mp [OF no_identity_cases [THEN conjunct2, THEN conjunct1] h1])
  have r2: "get_current_user ex_env ex_db (Some ''Bearer t-unknown'') = Inr None"
    by (rule mp [OF no_identity_cases [THEN conjunct2, THEN conjunct2, THEN conjunct1]
          conjI [OF h2 h3]])
  have r3: "get_current_user ex_env ex_db (Some ''bearer t-gone'') = Inr None"
    by (rule mp [OF no_identity_cases [THEN conjunct2, THEN conjunct2, THEN conjunct2,
            THEN conjunct1] conjI [OF h4 conjI [OF h5 h6]]])
  show ?thesis
    by (rule conjI [OF h1 conjI [OF r1 conjI [OF h2 conjI [OF h9 conjI [OF r2
          conjI [OF h4 conjI [OF h5 conjI [OF h7 conjI [OF h8 r3]]]]]]]]])
qed

section \<open>The authorization gate\<close>

lemma raises_simps:
  "raises (Inl (HTTPException c msg)) code = (c = code)"
  "raises (Inl IndexError) code = False"
  "raises (Inl ValidationError) code = False"
  "raises (Inr x) code = False"
  by (simp_all add: raises_def)

lemma admin_gate:
  assumes R: "response = (case depends_require_admin e d a of Inl err \<Rightarrow> Inl err | Inr user \<Rightarrow> body user)"
    and body: "\<And>user. \<not> raises (body user) 403"
  shows "admin_only e d a response"
proof -
  obtain r where r: "get_current_user e d a = Inr r"
    using get_current_user_total by blast
  show ?thesis
  proof (cases r)
    case None
    then show ?thesis using r R
      by (simp add: depends_require_admin_def require_admin_def raises_simps)
  next
    case (Some u)
    then show ?thesis using r R body [of u]
      by (simp add: depends_require_admin_def require_admin_def raises_simps)
  qed
qed

lemma create_game_not_403: "\<not> raises (create_game e d payload user) 403"
  by (simp add: create_game_def Let_def raises_simps)

lemma update_game_not_403: "\<not> raises (update_game e d game_id payload user) 403"
  by (simp add: update_game_def Let_def oid_def raises_simps split: option.splits)

lemma delete_game_not_403: "\<not> raises (delete_game d game_id user) 403"
  by (simp add: delete_game_def Let_def oid_def raises_simps split: option.splits)

lemma admin_list_orders_not_403: "\<not> raises (admin_list_orders d status user) 403"
  by (simp add: admin_list_orders_def raises_simps split: option.splits)

lemma update_order_status_not_403: "\<not> raises (update_order_status e d order_id status user) 403"
  by (simp add: update_order_status_def Let_def oid_def raises_simps split: option.splits)

text \<open>
  Claim C2. Every admin-only route (create, update and delete a game, list orders, set
  an order's status) answers 401 when the authenticator yields no identity and 403
  when it yields a user whose role is not \<open>admin\<close>; it answers 403 only when the
  authenticator has yielded a user.
\<close>

theorem admin_routes_401_403:
  "admin_only e d a (POST_admin_games e d a game_body) \<and>
   admin_only e d a (PUT_admin_games e d a game_id update_body) \<and>
   admin_only e d a (DELETE_admin_games e d a game_id) \<and>
   admin_only e d a (GET_admin_orders e d a status_filter) \<and>
   admin_only e d a (POST_admin_orders_status e d a order_id status)"
proof -
  have g1: "admin_only e d a (POST_admin_games e d a game_body)"
    by (rule admin_gate [OF POST_admin_games_def create_game_not_403])
  have g2: "admin_only e d a (PUT_admin_games e d a game_id update_body)"
    by (rule admin_gate [OF PUT_admin_games_def update_game_not_403])
  have g3: "admin_only e d a (DELETE_admin_games e d a game_id)"
    by (rule admin_gate [OF DELETE_admin_games_def delete_game_not_403])
  have g4: "admin_only e d a (GET_admin_orders e d a status_filter)"
    by (rule admin_gate [OF GET_admin_orders_def admin_list_orders_not_403])
  have g5: "admin_only e d a (POST_admin_orders_status e d a order_id status)"
    by (rule admin_gate [OF POST_admin_orders_status_def update_order_status_not_403])
  show ?thesis
    by (rule conjI [OF g1 conjI [OF g2 conjI [OF g3 conjI [OF g4 g5]]]])
qed


lemma ex_alice_authenticates:
  "get_current_user ex_env ex_db (Some ''Bearer t-alice'') = Inr (Some ex_alice)"
proof -
  have b: "startswith (lower ''Bearer t-alice'') ''bearer ''"
    by (simp add: startswith_def lower_def lower_char_def)
  have v: "ObjectId_is_valid ''0123456789abcdef01234567''"
    by (simp add: oid_eval)
  have l: "oid ''0123456789abcdef01234567'' = Inr (ObjectId ''0123456789abcdef01234567'')"
    by (simp add: oid_eval)
  show ?thesis
    unfolding get_current_user_bearer [OF b]
    by (simp add: find_one_def ex_db_def ex_session_def ex_env_def v l ex_alice_def ex_uid_def)
qed

theorem admin_routes_401_403_witness:
  "get_current_user ex_env ex_db None = Inr None \<and>
   DELETE_admin_games ex_env ex_db None ''0123456789abcdef01234567'' =
     Inl (HTTPException 401 ''Unauthorized'') \<and>
   get_current_user ex_env ex_db (Some ''Bearer t-alice'') = Inr (Some ex_alice) \<and>
   u_role (doc ex_alice) \<noteq> ''admin'' \<and>
   DELETE_admin_games ex_env ex_db (Some ''Bearer t-alice'') ''0123456789abcdef01234567'' =
     Inl (HTTPException 403 ''Admin access required'')"
proof -
  have anon: "get_current_user ex_env ex_db None = Inr None"
    by (simp add: get_current_user_def)
  have role: "u_role (doc ex_alice) \<noteq> ''admin''"
    by (simp add: ex_alice_def)
  note gate_anon = admin_routes_401_403 [of ex_env ex_db None _ "''0123456789abcdef01234567''",
      THEN conjunct2, THEN conjunct2, THEN conjunct1]
  note gate_user = admin_routes_401_403 [of ex_env ex_db "Some ''Bearer t-alice''" _
      "''0123456789abcdef01234567''", THEN conjunct2, THEN conjunct2, THEN conjunct1]
  have r401: "DELETE_admin_games ex_env ex_db None ''0123456789abcdef01234567'' =
     Inl (HTTPException 401 ''Unauthorized'')"
    by (rule mp [OF gate_anon [THEN conjunct1] anon])
  have r403: "DELETE_admin_games ex_env ex_db (Some ''Bearer t-alice'')
      ''0123456789abcdef01234567'' = Inl (HTTPException 403 ''Admin access required'')"
    by (rule mp [OF gate_user [THEN conjunct2, THEN conjunct1, THEN spec, of ex_alice]
          conjI [OF ex_alice_authenticates role]])
  show ?thesis
    by (rule conjI [OF anon conjI [OF r401 conjI [OF ex_alice_authenticates conjI [OF role r403]]]])
qed

section \<open>The current user\<close>

text \<open>
  Claim C5. A successful \<^verbatim>\<open>GET /me\<close> returns the authenticated user's document
  without the key \<open>password_hash\<close>: the answer holds exactly the identifier, the name,
  the email, the role and the active flag of that user.
\<close>

theorem me_omits_password_hash:
  "GET_me e d a = Inr out \<longrightarrow>
     ''password_hash'' \<notin> fst ` set out \<and>
     (\<exists>u. get_current_user e d a = Inr (Some u) \<and>
          out = [(''_id'', JStr (str_oid (doc_id u))),
                 (''name'', JStr (u_name (doc u))),
                 (''email'', JStr (u_email (doc u))),
                 (''role'', JStr (u_role (doc u))),
                 (''is_active'', JBool (u_is_active (doc u)))])"
proof
  assume ok: "GET_me e d a = Inr out"
  obtain r where r: "get_current_user e d a = Inr r"
    using get_current_user_total by blast
  from ok r obtain u where u: "r = Some u"
    by (cases r) (simp_all add: GET_me_def me_def)
  have out: "out = [(''_id'', JStr (str_oid (doc_id u))),
                 (''name'', JStr (u_name (doc u))),
                 (''email'', JStr (u_email (doc u))),
                 (''role'', JStr (u_role (doc u))),
                 (''is_active'', JBool (u_is_active (doc u)))]"
    using ok r u by (simp add: GET_me_def me_def user_dict_def dict_setitem_def dict_pop_def)
  have "''password_hash'' \<notin> fst ` set out"
    unfolding out by simp
  with out r u show "''password_hash'' \<notin> fst ` set out \<and>
     (\<exists>u. get_current_user e d a = Inr (Some u) \<and>
          out = [(''_id'', JStr (str_oid (doc_id u))),
                 (''name'', JStr (u_name (doc u))),
                 (''email'', JStr (u_email (doc u))),
                 (''role'', JStr (u_role (doc u))),
                 (''is_active'', JBool (u_is_active (doc u)))])"
    by simp
qed

theorem me_omits_password_hash_witness:
  "GET_me ex_env ex_db (Some ''Bearer t-alice'') =
     Inr [(''_id'', JStr ''0123456789abcdef01234567''), (''name'', JStr ''Alice''),
          (''email'', JStr ''alice@example.com''), (''role'', JStr ''user''),
          (''is_active'', JBool True)] \<and>
   ''password_hash'' \<notin> fst ` set [(''_id'', JStr ''0123456789abcdef01234567''),
          (''name'', JStr ''Alice''), (''email'', JStr ''alice@example.com''),
          (''role'', JStr ''user''), (''is_active'', JBool True)]"
proof -
  have run: "GET_me ex_env ex_db (Some ''Bearer t-alice'') =
     Inr [(''_id'', JStr ''0123456789abcdef01234567''), (''name'', JStr ''Alice''),
          (''email'', JStr ''alice@example.com''), (''role'', JStr ''user''),
          (''is_active'', JBool True)]"
    by (simp add: GET_me_def ex_alice_authenticates me_def user_dict_def dict_setitem_def
        dict_pop_def ex_alice_def ex_uid_def str_oid_def)
  have hidden: "''password_hash'' \<notin> fst ` set [(''_id'', JStr ''0123456789abcdef01234567''),
          (''name'', JStr ''Alice''), (''email'', JStr ''alice@example.com''),
          (''role'', JStr ''user''), (''is_active'', JBool True)]"
    by (rule me_omits_password_hash [THEN mp, OF run, THEN conjunct1])
  show ?thesis
    by (rule conjI [OF run hidden])
qed

section \<open>Registration\<close>

lemma register_taken:
  "find_one (\<lambda>u. u_email (doc u) = lower (rr_email p)) (COL_USER d) = Some u \<Longrightarrow>
   register e d p = Inl (HTTPException 400 ''Email already registered'')"
  by (simp add: register_def)

lemma register_free:
  "find_one (\<lambda>u. u_email (doc u) = lower (rr_email p)) (COL_USER d) = None \<Longrightarrow>
   register e d p =
     Inr (\<lparr>tr_token = token_hex e, tr_role = ''user'', tr_name = rr_name p,
           tr_email = lower (rr_email p)\<rparr>,
          d\<lparr>COL_USER := COL_USER d @
                [\<lparr>doc_id = inserted_id e,
                  doc = \<lparr>u_name = rr_name p, u_email = lower (rr_email p),
                         u_password_hash = hash_password e (rr_password p),
                         u_role = ''user'', u_is_active = True\<rparr>,
                  updated_at = None\<rparr>],
             COL_SESSION := COL_SESSION d @
                [\<lparr>doc_id = session_inserted_id e,
                  doc = \<lparr>s_user_id = str_oid (inserted_id e), s_token = token_hex e,
                         s_expires_at = time_time e + SESSION_TTL_SECONDS\<rparr>,
                  updated_at = None\<rparr>]\<rparr>)"
  by (simp add: register_def Let_def create_document_def create_session_def)

text \<open>
  Claim C6. In a store whose emails are in lower case, as registration writes them,
  \<open>register\<close> raises 400 exactly when a stored user has the requested email up to
  letter case; it raises nothing else, and a call that raises leaves the database as it
  was. Otherwise it stores the user under the lower-cased email with role \<open>user\<close>, and
  a session for it.
\<close>

theorem register_400_iff_email_taken:
  assumes lowercase: "\<forall>u\<in>set (COL_USER d). u_email (doc u) = lower (u_email (doc u))"
  shows "(register e d p = Inl (HTTPException 400 ''Email already registered'')) =
           (\<exists>u\<in>set (COL_USER d). lower (u_email (doc u)) = lower (rr_email p)) \<and>
         (\<forall>err. register e d p = Inl err \<longrightarrow>
            err = HTTPException 400 ''Email already registered'' \<and>
            db_after d (register e d p) = d) \<and>
         ((\<forall>u\<in>set (COL_USER d). lower (u_email (doc u)) \<noteq> lower (rr_email p)) \<longrightarrow>
            register e d p =
              Inr (\<lparr>tr_token = token_hex e, tr_role = ''user'', tr_name = rr_name p,
                    tr_email = lower (rr_email p)\<rparr>,
                   d\<lparr>COL_USER := COL_USER d @
                         [\<lparr>doc_id = inserted_id e,
                           doc = \<lparr>u_name = rr_name p, u_email = lower (rr_email p),
                                  u_password_hash = hash_password e (rr_password p),
                                  u_role = ''user'', u_is_active = True\<rparr>,
                           updated_at = None\<rparr>],
                      COL_SESSION := COL_SESSION d @
                         [\<lparr>doc_id = session_inserted_id e,
                           doc = \<lparr>s_user_id = str_oid (inserted_id e), s_token = token_hex e,
                                  s_expires_at = time_time e + SESSION_TTL_SECONDS\<rparr>,
                           updated_at = None\<rparr>]\<rparr>))"
proof -
  let ?q = "\<lambda>u. u_email (doc u) = lower (rr_email p)"
  have taken: "(find_one ?q (COL_USER d) = None) =
      (\<forall>u\<in>set (COL_USER d). lower (u_email (doc u)) \<noteq> lower (rr_email p))"
    unfolding find_one_None using lowercase by (metis (mono_tags, lifting))
  show ?thesis
  proof (cases "find_one ?q (COL_USER d)")
    case None
    with taken have free: "\<forall>u\<in>set (COL_USER d). lower (u_email (doc u)) \<noteq> lower (rr_email p)"
      by simp
    show ?thesis
      using free by (simp add: register_free [OF None])
  next
    case (Some u)
    with taken have used: "\<exists>u\<in>set (COL_USER d). lower (u_email (doc u)) = lower (rr_email p)"
      by auto
    show ?thesis
      using used by (auto simp add: register_taken [OF Some] db_after_def)
  qed
qed


theorem register_400_iff_email_taken_witness:
  "register ex_env ex_db (ex_register_request ''Alice@Example.COM'') =
     Inl (HTTPException 400 ''Email already registered'') \<and>
   register ex_env ex_db (ex_register_request ''Bob@Example.COM'') =
     Inr (\<lparr>tr_token = ''c0ffee'', tr_role = ''user'', tr_name = ''Bob'',
           tr_email = ''bob@example.com''\<rparr>,
          ex_db\<lparr>COL_USER := [ex_alice, ex_root,
                 \<lparr>doc_id = ObjectId ''aaaaaaaaaaaaaaaaaaaaaaaa'',
                  doc = \<lparr>u_name = ''Bob'', u_email = ''bob@example.com'',
                         u_password_hash = ''wpyek-terces-ved'',
                         u_role = ''user'', u_is_active = True\<rparr>,
                  updated_at = None\<rparr>],
             COL_SESSION := [ex_session ''0123456789abcdef01234567'' ''t-alice'',
                 ex_session ''ffffffffffffffffffffffff'' ''t-gone'',
                 ex_session ''000000000000000000000001'' ''t-root'',
                 \<lparr>doc_id = ObjectId ''bbbbbbbbbbbbbbbbbbbbbbbb'',
                  doc = \<lparr>s_user_id = ''aaaaaaaaaaaaaaaaaaaaaaaa'', s_token = ''c0ffee'',
                         s_expires_at = 605800\<rparr>,
                  updated_at = None\<rparr>]\<rparr>)"
proof -
  have l1: "lower ''alice@example.com'' = ''alice@example.com''"
    by (simp add: lower_def lower_char_def)
  have l0: "lower ''root@example.com'' = ''root@example.com''"
    by (simp add: lower_def lower_char_def)
  have l2: "lower ''Alice@Example.COM'' = ''alice@example.com''"
    by (simp add: lower_def lower_char_def)
  have l3: "lower ''Bob@Example.COM'' = ''bob@example.com''"
    by (simp add: lower_def lower_char_def)
  have lowercase: "\<forall>u\<in>set (COL_USER ex_db). u_email (doc u) = lower (u_email (doc u))"
    by (simp add: ex_db_def ex_alice_def ex_root_def l0 l1)
  have used: "\<exists>u\<in>set (COL_USER ex_db).
      lower (u_email (doc u)) = lower (rr_email (ex_register_request ''Alice@Example.COM''))"
    by (simp add: ex_db_def ex_alice_def ex_root_def ex_register_request_def l0 l1 l2)
  have free: "\<forall>u\<in>set (COL_USER ex_db).
      lower (u_email (doc u)) \<noteq> lower (rr_email (ex_register_request ''Bob@Example.COM''))"
    by (simp add: ex_db_def ex_alice_def ex_root_def ex_register_request_def l0 l1 l3)
  have r1: "register ex_env ex_db (ex_register_request ''Alice@Example.COM'') =
     Inl (HTTPException 400 ''Email already registered'')"
    by (rule iffD2 [OF register_400_iff_email_taken [OF lowercase, THEN conjunct1] used])
  note r2 = mp [OF register_400_iff_email_taken [OF lowercase, THEN conjunct2, THEN conjunct2] free]
  show ?thesis
    using r1 r2
    by (simp add: ex_register_request_def l3 ex_env_def ex_db_def hash_password_def
        str_oid_def SESSION_TTL_SECONDS_def)
qed

section \<open>Order creation\<close>

lemma create_order_cases:
  assumes "oid (co_game_id p) = Inr i"
  shows "create_order e d p user =
    (case find_one (\<lambda>g. doc_id g = i) (COL_GAME d) of
       None \<Rightarrow> Inl (HTTPException 404 ''Game not found'')
     | Some game \<Rightarrow>
         (case find_one (\<lambda>x. o_transaction_id (doc x) = co_transaction_id p) (COL_ORDER d) of
            Some dup \<Rightarrow> Inl (HTTPException 400 ''Transaction ID already used'')
          | None \<Rightarrow>
              Inr ((str_oid (inserted_id e),
                    ''Order placed. Delivery within 2 hours after verification.''),
                   d\<lparr>COL_ORDER := COL_ORDER d @
                       [\<lparr>doc_id = inserted_id e,
                         doc = \<lparr>o_user_id = (case user of None \<Rightarrow> None
                                               | Some u \<Rightarrow> Some (str_oid (doc_id u))),
                                o_game_id = co_game_id p,
                                o_transaction_id = co_transaction_id p,
                                o_payment_method = ''NAGAD'',
                                o_delivery_email = co_delivery_email p,
                                o_status = ''pending''\<rparr>,
                         updated_at = None\<rparr>]\<rparr>)))"
  using assms by (simp add: create_order_def Let_def create_document_def split: option.splits)

lemma find_one_Some_iff: "(find_one q xs \<noteq> None) = (\<exists>x\<in>set xs. q x)"
  by (simp add: find_one_None)

text \<open>
  Claim C7. \<^verbatim>\<open>POST /orders\<close> with a well-formed \<open>game_id\<close>: it raises 404 when no
  stored game has that identifier, and 400 when the game exists and an order already
  carries the transaction identifier; a call that raises creates no order. Otherwise
  the order is stored with status \<open>pending\<close> and with the identifier of the
  authenticated user, or no user identifier when the request is anonymous.
\<close>

theorem create_order_errors_and_success:
  assumes auth: "get_current_user e d a = Inr user"
    and wellformed: "oid (co_game_id p) = Inr i"
  shows "((\<forall>g\<in>set (COL_GAME d). doc_id g \<noteq> i) \<longrightarrow>
            POST_orders e d a p = Inl (HTTPException 404 ''Game not found'')) \<and>
         ((\<exists>g\<in>set (COL_GAME d). doc_id g = i) \<and>
          (\<exists>x\<in>set (COL_ORDER d). o_transaction_id (doc x) = co_transaction_id p) \<longrightarrow>
            POST_orders e d a p = Inl (HTTPException 400 ''Transaction ID already used'')) \<and>
         (\<forall>err. POST_orders e d a p = Inl err \<longrightarrow> db_after d (POST_orders e d a p) = d) \<and>
         ((\<exists>g\<in>set (COL_GAME d). doc_id g = i) \<and>
          (\<forall>x\<in>set (COL_ORDER d). o_transaction_id (doc x) \<noteq> co_transaction_id p) \<longrightarrow>
            POST_orders e d a p =
              Inr ((str_oid (inserted_id e),
                    ''Order placed. Delivery within 2 hours after verification.''),
                   d\<lparr>COL_ORDER := COL_ORDER d @
                       [\<lparr>doc_id = inserted_id e,
                         doc = \<lparr>o_user_id = (case user of None \<Rightarrow> None
                                               | Some u \<Rightarrow> Some (str_oid (doc_id u))),
                                o_game_id = co_game_id p,
                                o_transaction_id = co_transaction_id p,
                                o_payment_method = ''NAGAD'',
                                o_delivery_email = co_delivery_email p,
                                o_status = ''pending''\<rparr>,
                         updated_at = None\<rparr>]\<rparr>))"
proof -
  have route: "POST_orders e d a p = create_order e d p user"
    by (simp add: POST_orders_def auth)
  have missing: "POST_orders e d a p = Inl (HTTPException 404 ''Game not found'')"
    if "\<forall>g\<in>set (COL_GAME d). doc_id g \<noteq> i"
  proof -
    from that have "find_one (\<lambda>g. doc_id g = i) (COL_GAME d) = None"
      by (simp add: find_one_None)
    then show ?thesis by (simp add: route create_order_cases [OF wellformed])
  qed
  have duplicate: "POST_orders e d a p = Inl (HTTPException 400 ''Transaction ID already used'')"
    if "\<exists>g\<in>set (COL_GAME d). doc_id g = i"
      and "\<exists>x\<in>set (COL_ORDER d). o_transaction_id (doc x) = co_transaction_id p"
  proof -
    from that(1) obtain game where "find_one (\<lambda>g. doc_id g = i) (COL_GAME d) = Some game"
      using find_one_Some_iff [of "\<lambda>g. doc_id g = i" "COL_GAME d"] by auto
    moreover from that(2) obtain dup where
      "find_one (\<lambda>x. o_transaction_id (doc x) = co_transaction_id p) (COL_ORDER d) = Some dup"
      using find_one_Some_iff [of "\<lambda>x. o_transaction_id (doc x) = co_transaction_id p" "COL_ORDER d"]
      by auto
    ultimately show ?thesis by (simp add: route create_order_cases [OF wellformed])
  qed
  have unchanged: "db_after d (POST_orders e d a p) = d" if "POST_orders e d a p = Inl err" for err
    using that by (simp add: db_after_def)
  have placed: "POST_orders e d a p =
              Inr ((str_oid (inserted_id e),
                    ''Order placed. Delivery within 2 hours after verification.''),
                   d\<lparr>COL_ORDER := COL_ORDER d @
                       [\<lparr>doc_id = inserted_id e,
                         doc = \<lparr>o_user_id = (case user of None \<Rightarrow> None
                                               | Some u \<Rightarrow> Some (str_oid (doc_id u))),
                                o_game_id = co_game_id p,
                                o_transaction_id = co_transaction_id p,
                                o_payment_method = ''NAGAD'',
                                o_delivery_email = co_delivery_email p,
                                o_status = ''pending''\<rparr>,
                         updated_at = None\<rparr>]\<rparr>)"
    if "\<exists>g\<in>set (COL_GAME d). doc_id g = i"
      and "\<forall>x\<in>set (COL_ORDER d). o_transaction_id (doc x) \<noteq> co_transaction_id p"
  proof -
    from that(1) obtain game where "find_one (\<lambda>g. doc_id g = i) (COL_GAME d) = Some game"
      using find_one_Some_iff [of "\<lambda>g. doc_id g = i" "COL_GAME d"] by auto
    moreover from that(2) have
      "find_one (\<lambda>x. o_transaction_id (doc x) = co_transaction_id p) (COL_ORDER d) = None"
      by (simp add: find_one_None)
    ultimately show ?thesis by (simp add: route create_order_cases [OF wellformed])
  qed
  from missing duplicate unchanged placed show ?thesis by blast
qed

lemma ex_game_id: "oid ''111111111111111111111111'' = Inr (ObjectId ''111111111111111111111111'')"
  by (simp add: oid_eval)

lemma ex_missing_id: "oid ''999999999999999999999999'' = Inr (ObjectId ''999999999999999999999999'')"
  by (simp add: oid_eval)

theorem create_order_errors_and_success_witness:
  "POST_orders ex_env ex_db None (ex_order_request ''999999999999999999999999'' ''TX2'') =
     Inl (HTTPException 404 ''Game not found'') \<and>
   POST_orders ex_env ex_db None (ex_order_request ''111111111111111111111111'' ''TX1'') =
     Inl (HTTPException 400 ''Transaction ID already used'') \<and>
   POST_orders ex_env ex_db None (ex_order_request ''111111111111111111111111'' ''TX2'') =
     Inr ((''aaaaaaaaaaaaaaaaaaaaaaaa'',
           ''Order placed. Delivery within 2 hours after verification.''),
          ex_db\<lparr>COL_ORDER := [ex_order,
             \<lparr>doc_id = ObjectId ''aaaaaaaaaaaaaaaaaaaaaaaa'',
              doc = \<lparr>o_user_id = None, o_game_id = ''111111111111111111111111'',
                     o_transaction_id = ''TX2'', o_payment_method = ''NAGAD'',
                     o_delivery_email = ''carol@example.com'', o_status = ''pending''\<rparr>,
              updated_at = None\<rparr>]\<rparr>) \<and>
   POST_orders ex_env ex_db (Some ''Bearer t-alice'')
       (ex_order_request ''111111111111111111111111'' ''TX2'') =
     Inr ((''aaaaaaaaaaaaaaaaaaaaaaaa'',
           ''Order placed. Delivery within 2 hours after verification.''),
          ex_db\<lparr>COL_ORDER := [ex_order,
             \<lparr>doc_id = ObjectId ''aaaaaaaaaaaaaaaaaaaaaaaa'',
              doc = \<lparr>o_user_id = Some ''0123456789abcdef01234567'',
                     o_game_id = ''111111111111111111111111'',
                     o_transaction_id = ''TX2'', o_payment_method = ''NAGAD'',
                     o_delivery_email = ''carol@example.com'', o_status = ''pending''\<rparr>,
              updated_at = None\<rparr>]\<rparr>)"
proof -
  have anon: "get_current_user ex_env ex_db None = Inr None"
    by (simp add: get_current_user_def)
  have id9: "oid (co_game_id (ex_order_request ''999999999999999999999999'' ''TX2'')) =
      Inr (ObjectId ''999999999999999999999999'')"
    by (simp add: ex_order_request_def ex_missing_id)
  have id1: "oid (co_game_id (ex_order_request ''111111111111111111111111'' tx)) =
      Inr (ObjectId ''111111111111111111111111'')" for tx
    by (simp add: ex_order_request_def ex_game_id)
  have nogame: "\<forall>g\<in>set (COL_GAME ex_db). doc_id g \<noteq> ObjectId ''999999999999999999999999''"
    by (simp add: ex_db_def ex_game_def)
  have game: "\<exists>g\<in>set (COL_GAME ex_db). doc_id g = ObjectId ''111111111111111111111111''"
    by (simp add: ex_db_def ex_game_def)
  have dup: "\<exists>x\<in>set (COL_ORDER ex_db). o_transaction_id (doc x) =
      co_transaction_id (ex_order_request ''111111111111111111111111'' ''TX1'')"
    by (simp add: ex_db_def ex_order_def ex_order_request_def)
  have nodup: "\<forall>x\<in>set (COL_ORDER ex_db). o_transaction_id (doc x) \<noteq>
      co_transaction_id (ex_order_request ''111111111111111111111111'' ''TX2'')"
    by (simp add: ex_db_def ex_order_def ex_order_request_def)
  note r1 = mp [OF create_order_errors_and_success [OF anon id9, THEN conjunct1] nogame]
  note r2 = mp [OF create_order_errors_and_success [OF anon id1, THEN conjunct2, THEN conjunct1]
      conjI [OF game dup]]
  note r3 = mp [OF create_order_errors_and_success [OF anon id1, THEN conjunct2, THEN conjunct2,
        THEN conjunct2] conjI [OF game nodup]]
  note r4 = mp [OF create_order_errors_and_success [OF ex_alice_authenticates id1,
        THEN conjunct2, THEN conjunct2, THEN conjunct2] conjI [OF game nodup]]
  have orders: "COL_ORDER ex_db = [ex_order]" by (simp add: ex_db_def)
  have new_id: "inserted_id ex_env = ObjectId ''aaaaaaaaaaaaaaaaaaaaaaaa''"
    by (simp add: ex_env_def)
  have alice_id: "hex (doc_id ex_alice) = ''0123456789abcdef01234567''"
    by (simp add: ex_alice_def ex_uid_def)
  show ?thesis
    using r1 r2 r3 r4
    by (simp add: orders new_id alice_id ex_order_request_def str_oid_def)
qed

section \<open>Game updates\<close>


lemma ex_root_is_admin:
  "depends_require_admin ex_env ex_db (Some ''Bearer t-root'') = Inr ex_root"
proof -
  have b: "startswith (lower ''Bearer t-root'') ''bearer ''"
    by (simp add: startswith_def lower_def lower_char_def)
  have v: "ObjectId_is_valid ''000000000000000000000001''"
    by (simp add: oid_eval)
  have l: "oid ''000000000000000000000001'' = Inr (ObjectId ''000000000000000000000001'')"
    by (simp add: oid_eval)
  have "get_current_user ex_env ex_db (Some ''Bearer t-root'') = Inr (Some ex_root)"
    unfolding get_current_user_bearer [OF b]
    by (simp add: find_one_def ex_db_def ex_session_def ex_env_def v l ex_alice_def ex_root_def
        ex_uid_def)
  then show ?thesis
    by (simp add: depends_require_admin_def require_admin_def ex_root_def)
qed




section \<open>Login after registration\<close>

lemma register_Inr_free:
  "register e d p = Inr r \<Longrightarrow>
   find_one (\<lambda>u. u_email (doc u) = lower (rr_email p)) (COL_USER d) = None"
  by (cases "find_one (\<lambda>u. u_email (doc u) = lower (rr_email p)) (COL_USER d)")
     (simp_all add: register_def)

lemma login_found:
  assumes "find_one (\<lambda>u. u_email (doc u) = lower (lr_email p)) (COL_USER d) = Some user"
    and "u_password_hash (doc user) = hash_password e (lr_password p)"
  shows "login e d p =
    Inr (\<lparr>tr_token = fst (create_session e d (str_oid (doc_id user))),
          tr_role = u_role (doc user), tr_name = u_name (doc user),
          tr_email = u_email (doc user)\<rparr>,
         snd (create_session e d (str_oid (doc_id user))))"
  using assms by (simp add: login_def Let_def)

lemma find_one_fresh_then_rest:
  "\<forall>x\<in>set xs. \<not> q x \<Longrightarrow> q y \<Longrightarrow> find_one q ((xs @ [y]) @ zs) = Some y"
  by (induction xs) (simp_all add: find_one_def)

text \<open>
  Claim C4. After a registration that succeeds, a login with the same email and
  password succeeds, and the token it returns authenticates, until it expires, to the
  very document that registration created. The user's record is not changed in
  between: the user collection at login is the one that registration left, followed by
  whatever users have registered since; the other collections are arbitrary. The
  identifier that the database gave the user is a fresh, well-formed object identifier,
  the login token is fresh, and the digest function and the secret are those of the
  registration.
\<close>

theorem login_after_register:
  assumes reg: "register e1 d p = Inr (resp1, d1)"
    and wf: "wf_oid (inserted_id e1)"
    and fresh_id: "\<forall>u\<in>set (COL_USER d). doc_id u \<noteq> inserted_id e1"
    and later: "COL_USER d2 = COL_USER d1 @ later_users"
    and same_digest: "sha256_hexdigest e2 = sha256_hexdigest e1"
    and same_secret: "SECRET_KEY e2 = SECRET_KEY e1"
    and fresh_token: "\<forall>s\<in>set (COL_SESSION d2). s_token (doc s) \<noteq> token_hex e2"
    and in_time: "time_time e3 \<le> time_time e2 + 604800"
  shows "\<exists>resp2 d3.
           login e2 d2 \<lparr>lr_email = rr_email p, lr_password = rr_password p\<rparr> = Inr (resp2, d3) \<and>
           get_current_user e3 d3 (Some (''Bearer '' @ tr_token resp2)) =
             Inr (Some \<lparr>doc_id = inserted_id e1,
                        doc = \<lparr>u_name = rr_name p, u_email = lower (rr_email p),
                               u_password_hash = hash_password e1 (rr_password p),
                               u_role = ''user'', u_is_active = True\<rparr>,
                        updated_at = None\<rparr>)"
proof -
  let ?new = "\<lparr>doc_id = inserted_id e1,
               doc = \<lparr>u_name = rr_name p, u_email = lower (rr_email p),
                      u_password_hash = hash_password e1 (rr_password p),
                      u_role = ''user'', u_is_active = True\<rparr>,
               updated_at = None\<rparr>"
  let ?creds = "\<lparr>lr_email = rr_email p, lr_password = rr_password p\<rparr>"
  let ?uid = "str_oid (inserted_id e1)"
  note free = register_Inr_free [OF reg]
  from reg have users1: "COL_USER d1 = COL_USER d @ [?new]"
    unfolding register_free [OF free] by auto
  have by_email: "find_one (\<lambda>u. u_email (doc u) = lower (lr_email ?creds)) (COL_USER d2) = Some ?new"
    unfolding later users1 using free
    by (intro find_one_fresh_then_rest) (simp_all add: find_one_None)
  have by_id: "find_one (\<lambda>u. doc_id u = inserted_id e1) (COL_USER d2) = Some ?new"
    unfolding later users1 using fresh_id
    by (intro find_one_fresh_then_rest) simp_all
  have digest: "u_password_hash (doc ?new) = hash_password e2 (lr_password ?creds)"
    by (simp add: hash_password_def same_digest same_secret)
  have logged_in: "login e2 d2 ?creds =
      Inr (\<lparr>tr_token = fst (create_session e2 d2 ?uid), tr_role = ''user'',
            tr_name = rr_name p, tr_email = lower (rr_email p)\<rparr>,
           snd (create_session e2 d2 ?uid))"
    using login_found [OF by_email digest] by simp
  have scheme: "lower ''Bearer '' = ''bearer ''"
    by (simp add: lower_def lower_char_def)
  have "get_current_user e3 (snd (create_session e2 d2 ?uid))
          (Some (''Bearer '' @ fst (create_session e2 d2 ?uid))) = Inr (Some ?new)"
    using create_session_then_authenticate [OF fresh_token oid_str_oid [OF wf] by_id scheme, of e3]
      in_time by simp
  with logged_in show ?thesis by simp
qed

theorem login_after_register_witness:
  "\<exists>resp1 d1 resp_carol d2 resp2 d3.
     register ex_env ex_db (ex_register_request ''Bob@Example.COM'') = Inr (resp1, d1) \<and>
     register ex_between d1 ex_carol_request = Inr (resp_carol, d2) \<and>
     login ex_later d2 \<lparr>lr_email = ''Bob@Example.COM'', lr_password = ''pw''\<rparr> = Inr (resp2, d3) \<and>
     get_current_user (ex_later\<lparr>time_time := 606800\<rparr>) d3 (Some (''Bearer '' @ tr_token resp2)) =
       Inr (Some \<lparr>doc_id = ObjectId ''aaaaaaaaaaaaaaaaaaaaaaaa'',
                  doc = \<lparr>u_name = ''Bob'', u_email = ''bob@example.com'',
                         u_password_hash = ''wpyek-terces-ved'',
                         u_role = ''user'', u_is_active = True\<rparr>,
                  updated_at = None\<rparr>)"
proof -
  let ?p = "ex_register_request ''Bob@Example.COM''"
  have l: "lower ''Bob@Example.COM'' = ''bob@example.com''"
    "lower ''alice@example.com'' = ''alice@example.com''"
    "lower ''root@example.com'' = ''root@example.com''"
    "lower ''Carol@Example.com'' = ''carol@example.com''"
    by (simp_all add: lower_def lower_char_def)
  have free: "find_one (\<lambda>u. u_email (doc u) = lower (rr_email ?p)) (COL_USER ex_db) = None"
    by (simp add: find_one_def ex_db_def ex_alice_def ex_root_def ex_register_request_def l)
  obtain resp1 d1 where reg: "register ex_env ex_db ?p = Inr (resp1, d1)"
    using register_free [OF free] by blast
  have users1: "COL_USER d1 = COL_USER ex_db @
      [\<lparr>doc_id = inserted_id ex_env,
        doc = \<lparr>u_name = rr_name ?p, u_email = lower (rr_email ?p),
               u_password_hash = hash_password ex_env (rr_password ?p),
               u_role = ''user'', u_is_active = True\<rparr>,
        updated_at = None\<rparr>]"
    using reg unfolding register_free [OF free] by auto
  have sessions1: "COL_SESSION d1 = COL_SESSION ex_db @
      [\<lparr>doc_id = session_inserted_id ex_env,
        doc = \<lparr>s_user_id = str_oid (inserted_id ex_env), s_token = token_hex ex_env,
               s_expires_at = time_time ex_env + SESSION_TTL_SECONDS\<rparr>,
        updated_at = None\<rparr>]"
    using reg unfolding register_free [OF free] by auto
  have free_carol:
    "find_one (\<lambda>u. u_email (doc u) = lower (rr_email ex_carol_request)) (COL_USER d1) = None"
    by (simp add: users1 find_one_def ex_db_def ex_alice_def ex_root_def ex_register_request_def
        ex_carol_request_def l)
  obtain resp_carol d2 where carol: "register ex_between d1 ex_carol_request = Inr (resp_carol, d2)"
    using register_free [OF free_carol] by blast
  have users2: "COL_USER d2 = COL_USER d1 @
      [\<lparr>doc_id = inserted_id ex_between,
        doc = \<lparr>u_name = rr_name ex_carol_request, u_email = lower (rr_email ex_carol_request),
               u_password_hash = hash_password ex_between (rr_password ex_carol_request),
               u_role = ''user'', u_is_active = True\<rparr>,
        updated_at = None\<rparr>]"
    using carol unfolding register_free [OF free_carol] by auto
  have sessions2: "COL_SESSION d2 = COL_SESSION d1 @
      [\<lparr>doc_id = session_inserted_id ex_between,
        doc = \<lparr>s_user_id = str_oid (inserted_id ex_between), s_token = token_hex ex_between,
               s_expires_at = time_time ex_between + SESSION_TTL_SECONDS\<rparr>,
        updated_at = None\<rparr>]"
    using carol unfolding register_free [OF free_carol] by auto
  have wf: "wf_oid (inserted_id ex_env)"
    by (simp add: wf_oid_def ex_env_def)
  have fresh_id: "\<forall>u\<in>set (COL_USER ex_db). doc_id u \<noteq> inserted_id ex_env"
    by (simp add: ex_db_def ex_alice_def ex_root_def ex_uid_def ex_env_def)
  have fresh_token: "\<forall>s\<in>set (COL_SESSION d2). s_token (doc s) \<noteq> token_hex ex_later"
    by (simp add: sessions2 sessions1 ex_db_def ex_session_def ex_env_def ex_between_def
        ex_later_def)
  have in_time: "time_time (ex_later\<lparr>time_time := 606800\<rparr>) \<le> time_time ex_later + 604800"
    by (simp add: ex_later_def)
  have same: "sha256_hexdigest ex_later = sha256_hexdigest ex_env"
    "SECRET_KEY ex_later = SECRET_KEY ex_env"
    by (simp_all add: ex_later_def ex_env_def)
  from login_after_register [OF reg wf fresh_id users2 same fresh_token in_time]
  obtain resp2 d3 where
    "login ex_later d2 \<lparr>lr_email = rr_email ?p, lr_password = rr_password ?p\<rparr> = Inr (resp2, d3)"
    "get_current_user (ex_later\<lparr>time_time := 606800\<rparr>) d3 (Some (''Bearer '' @ tr_token resp2)) =
       Inr (Some \<lparr>doc_id = inserted_id ex_env,
                  doc = \<lparr>u_name = rr_name ?p, u_email = lower (rr_email ?p),
                         u_password_hash = hash_password ex_env (rr_password ?p),
                         u_role = ''user'', u_is_active = True\<rparr>,
                  updated_at = None\<rparr>)"
    by blast
  then have
    "login ex_later d2 \<lparr>lr_email = ''Bob@Example.COM'', lr_password = ''pw''\<rparr> = Inr (resp2, d3) \<and>
     get_current_user (ex_later\<lparr>time_time := 606800\<rparr>) d3 (Some (''Bearer '' @ tr_token resp2)) =
       Inr (Some \<lparr>doc_id = ObjectId ''aaaaaaaaaaaaaaaaaaaaaaaa'',
                  doc = \<lparr>u_name = ''Bob'', u_email = ''bob@example.com'',
                         u_password_hash = ''wpyek-terces-ved'',
                         u_role = ''user'', u_is_active = True\<rparr>,
                  updated_at = None\<rparr>)"
    by (simp add: ex_register_request_def l ex_env_def hash_password_def)
  with reg carol show ?thesis by blast
qed

section \<open>Users across sequences of calls\<close>

lemma db_after_bind:
  "db_after d (case x of Inl err \<Rightarrow> Inl err | Inr v \<Rightarrow> f v) =
     (case x of Inl err \<Rightarrow> d | Inr v \<Rightarrow> db_after d (f v))"
  by (simp add: db_after_def split: sum.splits)

lemma login_users: "COL_USER (db_after d (login e d p)) = COL_USER d"
  by (simp add: login_def db_after_def Let_def create_session_others split: option.splits)

lemma create_game_users: "COL_USER (db_after d (create_game e d p u)) = COL_USER d"
  by (simp add: create_game_def db_after_def Let_def)

lemma update_game_users: "COL_USER (db_after d (update_game e d game_id p u)) = COL_USER d"
  by (simp add: update_game_def db_after_def Let_def split: sum.splits)

lemma delete_game_users: "COL_USER (db_after d (delete_game d game_id u)) = COL_USER d"
  by (simp add: delete_game_def db_after_def Let_def split: sum.splits)

lemma create_order_users: "COL_USER (db_after d (create_order e d p u)) = COL_USER d"
  by (simp add: create_order_def db_after_def Let_def split: sum.splits option.splits)

lemma update_order_status_users:
  "COL_USER (db_after d (update_order_status e d order_id st u)) = COL_USER d"
  by (simp add: update_order_status_def db_after_def Let_def split: sum.splits)

lemma register_users:
  "COL_USER (db_after d (register e d p)) = COL_USER d \<or>
   COL_USER (db_after d (register e d p)) = COL_USER d @
     [\<lparr>doc_id = inserted_id e,
       doc = \<lparr>u_name = rr_name p, u_email = lower (rr_email p),
              u_password_hash = hash_password e (rr_password p),
              u_role = ''user'', u_is_active = True\<rparr>,
       updated_at = None\<rparr>]"
proof (cases "find_one (\<lambda>u. u_email (doc u) = lower (rr_email p)) (COL_USER d)")
  case None
  show ?thesis by (simp add: register_free [OF None] db_after_def)
next
  case (Some u)
  show ?thesis by (simp add: register_taken [OF Some] db_after_def)
qed

lemma api_call_keeps_users:
  "(\<forall>p. r \<noteq> Register p) \<Longrightarrow> COL_USER (api_call e a r d) = COL_USER d"
  by (cases r)
     (simp_all add: login_users POST_admin_games_def PUT_admin_games_def DELETE_admin_games_def
       POST_orders_def POST_admin_orders_status_def db_after_bind create_game_users
       update_game_users delete_game_users create_order_users update_order_status_users
       split: sum.splits)

lemma api_call_users:
  "\<exists>new. COL_USER (api_call e a r d) = COL_USER d @ new \<and>
         (\<forall>u\<in>set new. u_role (doc u) = ''user'' \<and> u_is_active (doc u))"
proof (cases "\<exists>p. r = Register p")
  case True
  then obtain p where r: "r = Register p" by blast
  from register_users [of d e p] show ?thesis
  proof
    assume "COL_USER (db_after d (register e d p)) = COL_USER d"
    then have "COL_USER (api_call e a r d) = COL_USER d @ []" by (simp add: r)
    then show ?thesis by (intro exI [of _ "[]"]) simp
  next
    assume new: "COL_USER (db_after d (register e d p)) = COL_USER d @
     [\<lparr>doc_id = inserted_id e,
       doc = \<lparr>u_name = rr_name p, u_email = lower (rr_email p),
              u_password_hash = hash_password e (rr_password p),
              u_role = ''user'', u_is_active = True\<rparr>,
       updated_at = None\<rparr>]"
    show ?thesis
      by (rule exI [of _ "[\<lparr>doc_id = inserted_id e,
       doc = \<lparr>u_name = rr_name p, u_email = lower (rr_email p),
              u_password_hash = hash_password e (rr_password p),
              u_role = ''user'', u_is_active = True\<rparr>,
       updated_at = None\<rparr>]"]) (simp add: r new)
  qed
next
  case False
  then have "COL_USER (api_call e a r d) = COL_USER d @ []"
    by (simp add: api_call_keeps_users)
  then show ?thesis by (intro exI [of _ "[]"]) simp
qed

lemma run_users:
  "\<exists>new. COL_USER (run d calls) = COL_USER d @ new \<and>
         (\<forall>u\<in>set new. u_role (doc u) = ''user'' \<and> u_is_active (doc u))"
proof (induction calls arbitrary: d)
  case Nil
  show ?case by (intro exI [of _ "[]"]) simp
next
  case (Cons c calls)
  obtain e a r where c: "c = (e, a, r)" by (cases c)
  from api_call_users [of e a r d] obtain new1 where
    n1: "COL_USER (api_call e a r d) = COL_USER d @ new1"
      "\<forall>u\<in>set new1. u_role (doc u) = ''user'' \<and> u_is_active (doc u)" by blast
  from Cons.IH [of "api_call e a r d"] obtain new2 where
    n2: "COL_USER (run (api_call e a r d) calls) = COL_USER (api_call e a r d) @ new2"
      "\<forall>u\<in>set new2. u_role (doc u) = ''user'' \<and> u_is_active (doc u)" by blast
  show ?case
    using n1 n2 by (intro exI [of _ "new1 @ new2"]) (auto simp: c)
qed

text \<open>
  Claim C10. Whatever calls the application receives, the user collection only grows
  at its end, by documents with role \<open>user\<close> and \<open>is_active\<close> true; a call of any
  route other than \<^verbatim>\<open>/auth/register\<close> leaves the collection as it was, so no stored
  role ever changes. Hence a store without an admin has none after any sequence of
  calls.
\<close>

theorem no_admin_through_api:
  "(\<exists>new. COL_USER (run d calls) = COL_USER d @ new \<and>
          (\<forall>u\<in>set new. u_role (doc u) = ''user'' \<and> u_is_active (doc u))) \<and>
   ((\<forall>p. r \<noteq> Register p) \<longrightarrow> COL_USER (api_call e a r d) = COL_USER d) \<and>
   ((\<forall>u\<in>set (COL_USER d). u_role (doc u) \<noteq> ''admin'') \<longrightarrow>
      (\<forall>u\<in>set (COL_USER (run d calls)). u_role (doc u) \<noteq> ''admin''))"
proof -
  from run_users [of d calls] obtain new where
    new: "COL_USER (run d calls) = COL_USER d @ new"
      "\<forall>u\<in>set new. u_role (doc u) = ''user'' \<and> u_is_active (doc u)" by blast
  have keep: "COL_USER (api_call e a r d) = COL_USER d" if "\<forall>p. r \<noteq> Register p"
    using that by (rule api_call_keeps_users)
  have none: "\<forall>u\<in>set (COL_USER (run d calls)). u_role (doc u) \<noteq> ''admin''"
    if "\<forall>u\<in>set (COL_USER d). u_role (doc u) \<noteq> ''admin''"
    using that new by auto
  from new keep none show ?thesis by blast
qed


theorem no_admin_through_api_witness:
  "COL_USER (run ex_plain ex_calls) =
     [ex_alice,
      \<lparr>doc_id = ObjectId ''aaaaaaaaaaaaaaaaaaaaaaaa'',
       doc = \<lparr>u_name = ''Bob'', u_email = ''bob@example.com'',
              u_password_hash = ''wpyek-terces-ved'', u_role = ''user'', u_is_active = True\<rparr>,
       updated_at = None\<rparr>] \<and>
   ''admin'' \<notin> set (map (\<lambda>u. u_role (doc u)) (COL_USER (run ex_plain ex_calls))) \<and>
   COL_USER (api_call ex_later (Some ''Bearer c0ffee'') (DeleteGame ''111111111111111111111111'')
     ex_plain) = [ex_alice]"
proof -
  let ?p = "ex_register_request ''Bob@Example.COM''"
  have l: "lower ''Bob@Example.COM'' = ''bob@example.com''"
    "lower ''alice@example.com'' = ''alice@example.com''"
    by (simp_all add: lower_def lower_char_def)
  have free: "find_one (\<lambda>u. u_email (doc u) = lower (rr_email ?p)) (COL_USER ex_plain) = None"
    by (simp add: find_one_def ex_plain_def ex_alice_def ex_register_request_def l)
  have not_register: "\<forall>p. DeleteGame ''111111111111111111111111'' \<noteq> Register p"
    "\<forall>p. Login \<lparr>lr_email = ''Bob@Example.COM'', lr_password = ''pw''\<rparr> \<noteq> Register p"
    by simp_all
  note keep = mp [OF no_admin_through_api [THEN conjunct2, THEN conjunct1]]
  have users: "COL_USER (run ex_plain ex_calls) =
     [ex_alice,
      \<lparr>doc_id = ObjectId ''aaaaaaaaaaaaaaaaaaaaaaaa'',
       doc = \<lparr>u_name = ''Bob'', u_email = ''bob@example.com'',
              u_password_hash = ''wpyek-terces-ved'', u_role = ''user'', u_is_active = True\<rparr>,
       updated_at = None\<rparr>]"
  proof -
    have "COL_USER (run ex_plain ex_calls) =
        COL_USER (api_call ex_env None (Register ?p) ex_plain)"
      by (simp only: ex_calls_def run.simps keep [OF not_register(1)] keep [OF not_register(2)])
    also have "\<dots> = COL_USER ex_plain @
        [\<lparr>doc_id = inserted_id ex_env,
          doc = \<lparr>u_name = rr_name ?p, u_email = lower (rr_email ?p),
                 u_password_hash = hash_password ex_env (rr_password ?p),
                 u_role = ''user'', u_is_active = True\<rparr>,
          updated_at = None\<rparr>]"
      by (simp add: register_free [OF free] db_after_def)
    finally show ?thesis
      by (simp add: ex_plain_def ex_env_def ex_register_request_def l hash_password_def)
  qed
  have start: "\<forall>u\<in>set (COL_USER ex_plain). u_role (doc u) \<noteq> ''admin''"
    by (simp add: ex_plain_def ex_alice_def)
  have "\<forall>u\<in>set (COL_USER (run ex_plain ex_calls)). u_role (doc u) \<noteq> ''admin''"
    by (rule mp [OF no_admin_through_api [THEN conjunct2, THEN conjunct2] start])
  then have none: "''admin'' \<notin> set (map (\<lambda>u. u_role (doc u)) (COL_USER (run ex_plain ex_calls)))"
    by auto
  have kept: "COL_USER (api_call ex_later (Some ''Bearer c0ffee'')
      (DeleteGame ''111111111111111111111111'') ex_plain) = [ex_alice]"
    by (simp only: keep [OF not_register(1)]) (simp add: ex_plain_def)
  show ?thesis
    by (rule conjI [OF users conjI [OF none kept]])
qed

section \<open>Stored emails stay in lower case\<close>

text \<open>
  The store that claim C6 speaks of keeps every email in lower case. No call breaks
  that: registration writes the lower-cased email and no other route writes a user.
\<close>

lemma lower_char_idem: "lower_char (lower_char c) = lower_char c"
  by (auto simp: lower_char_def split: if_splits)

lemma lower_idem: "lower (lower s) = lower s"
  by (simp add: lower_def lower_char_idem)

lemma register_keeps_lowercase:
  assumes "\<forall>u\<in>set (COL_USER d). u_email (doc u) = lower (u_email (doc u))"
  shows "\<forall>u\<in>set (COL_USER (db_after d (register e d p))). u_email (doc u) = lower (u_email (doc u))"
  using assms register_users [of d e p] by (auto simp: lower_idem)


lemma api_call_keeps_lowercase:
  assumes "\<forall>u\<in>set (COL_USER d). u_email (doc u) = lower (u_email (doc u))"
  shows "\<forall>u\<in>set (COL_USER (api_call e a r d)). u_email (doc u) = lower (u_email (doc u))"
proof (cases "\<exists>p. r = Register p")
  case True
  then obtain p where "r = Register p" by blast
  with register_keeps_lowercase [OF assms, of e p] show ?thesis by simp
next
  case False
  then show ?thesis using assms by (simp add: api_call_keeps_users)
qed

lemma run_keeps_lowercase:
  "\<forall>u\<in>set (COL_USER d). u_email (doc u) = lower (u_email (doc u)) \<Longrightarrow>
   \<forall>u\<in>set (COL_USER (run d calls)). u_email (doc u) = lower (u_email (doc u))"
proof (induction calls arbitrary: d)
  case Nil
  then show ?case by simp
next
  case (Cons c calls)
  obtain e a r where c: "c = (e, a, r)" by (cases c)
  from Cons.IH [OF api_call_keeps_lowercase [OF Cons.prems, of e a r]]
  show ?case by (simp add: c)
qed

section \<open>Malformed identifiers\<close>

text \<open>The traced handlers and routes answer as the plain ones do.\<close>

lemma get_current_user_traced_fst:
  "fst (get_current_user_traced e d a) = get_current_user e d a"
  by (simp add: get_current_user_traced_def get_current_user_def
      split: option.splits sum.splits)

lemma depends_require_admin_traced_fst:
  "fst (depends_require_admin_traced e d a) = depends_require_admin e d a"
  by (simp add: depends_require_admin_traced_def depends_require_admin_def
      get_current_user_traced_fst split: sum.splits)

lemma depends_require_admin_traced_snd:
  "snd (depends_require_admin_traced e d a) = snd (get_current_user_traced e d a)"
  by (simp add: depends_require_admin_traced_def split: sum.splits)

lemma get_game_traced_fst: "fst (get_game_traced d game_id) = get_game d game_id"
  by (simp add: get_game_traced_def get_game_def split: option.splits sum.splits)

lemma update_game_traced_fst:
  "fst (update_game_traced e d game_id payload user) = update_game e d game_id payload user"
  by (simp add: update_game_traced_def update_game_def Let_def split: sum.splits)

lemma delete_game_traced_fst:
  "fst (delete_game_traced d game_id user) = delete_game d game_id user"
  by (simp add: delete_game_traced_def delete_game_def Let_def split: sum.splits)

lemma create_order_traced_fst:
  "fst (create_order_traced e d payload user) = create_order e d payload user"
  by (simp add: create_order_traced_def create_order_def Let_def split: option.splits sum.splits)

lemma update_order_status_traced_fst:
  "fst (update_order_status_traced e d order_id status user) =
     update_order_status e d order_id status user"
  by (simp add: update_order_status_traced_def update_order_status_def Let_def split: sum.splits)

lemma routes_traced_fst:
  "fst (PUT_admin_games_traced e d a game_id payload) = PUT_admin_games e d a game_id payload"
  "fst (DELETE_admin_games_traced e d a game_id) = DELETE_admin_games e d a game_id"
  "fst (POST_orders_traced e d a order_payload) = POST_orders e d a order_payload"
  "fst (POST_admin_orders_status_traced e d a order_id status) =
     POST_admin_orders_status e d a order_id status"
  by (simp_all add: PUT_admin_games_traced_def PUT_admin_games_def DELETE_admin_games_traced_def
      DELETE_admin_games_def POST_orders_traced_def POST_orders_def
      POST_admin_orders_status_traced_def POST_admin_orders_status_def after_dependency_def
      depends_require_admin_traced_fst get_current_user_traced_fst update_game_traced_fst
      delete_game_traced_fst create_order_traced_fst update_order_status_traced_fst
      split: sum.splits)

text \<open>
  The authenticator only reads the session and user collections: it looks the session
  up by its token and the user by the session's \<open>user_id\<close>.
\<close>

lemma get_current_user_traced_calls:
  "\<forall>c\<in>set (snd (get_current_user_traced e d a)).
     (\<exists>token. c = Find_one ''session'' (By_field ''token'' token)) \<or>
     (\<exists>i. c = Find_one ''user'' (By_id i))"
  by (simp add: get_current_user_traced_def split: option.splits sum.splits)

lemma ex_not_an_id: "length ''not-an-id'' \<noteq> 24"
  by simp

text \<open>
  Claim C9, as stated, fails on the admin routes: the gate answers first (401 without a
  token), and an update whose body sets no field returns \<^verbatim>\<open>{"updated": false}\<close>
  without validating the identifier.
\<close>

theorem malformed_id_counterexample:
  "length ''not-an-id'' \<noteq> 24 \<and>
   PUT_admin_games ex_env ex_db (Some ''Bearer t-root'') ''not-an-id'' ex_no_updates =
     Inr (False, ex_db) \<and>
   DELETE_admin_games ex_env ex_db None ''not-an-id'' = Inl (HTTPException 401 ''Unauthorized'')"
proof -
  have run: "PUT_admin_games ex_env ex_db (Some ''Bearer t-root'') ''not-an-id'' ex_no_updates =
     Inr (False, ex_db)"
    by (simp add: PUT_admin_games_def ex_root_is_admin update_game_def no_updates_def
        ex_no_updates_def)
  have anon: "DELETE_admin_games ex_env ex_db None ''not-an-id'' =
      Inl (HTTPException 401 ''Unauthorized'')"
    by (simp add: DELETE_admin_games_def depends_require_admin_def get_current_user_def
        require_admin_def)
  show ?thesis
    using ex_not_an_id run anon by simp
qed

text \<open>
  Claim C9, amended. Take an identifier that is not 24 characters long, or that holds a
  character that is neither a hexadecimal digit nor ASCII white space. Whatever the
  database holds, \<^verbatim>\<open>GET /games/{id}\<close> answers 400 and makes no call on the database,
  and \<^verbatim>\<open>POST /orders\<close> answers 400 for every caller with no call beyond those of the
  authenticator. The three admin routes do the same once the caller has passed the
  admin gate; there, an update whose body sets no field returns
  \<^verbatim>\<open>{"updated": false}\<close> instead, and a status outside the four allowed ones is the
  400 reported. A caller who does not pass the gate gets the gate's error. In every case
  the calls of the route are those of the authenticator alone, which reads sessions by
  token and users by the session's \<open>user_id\<close>.

  The statement is silent on strings of 24 characters that are made of hexadecimal
  digits and white space.
\<close>

theorem malformed_id_400:
  assumes malformed:
    "length id_str \<noteq> 24 \<or> (\<exists>c\<in>set id_str. \<not> is_hex_char c \<and> \<not> is_space c)"
  shows "get_game_traced d id_str = (Inl (HTTPException 400 ''Invalid id format''), []) \<and>
         get_game d id_str = Inl (HTTPException 400 ''Invalid id format'') \<and>
         (co_game_id p = id_str \<longrightarrow>
            POST_orders_traced e d a p =
              (Inl (HTTPException 400 ''Invalid id format''), snd (get_current_user_traced e d a)) \<and>
            POST_orders e d a p = Inl (HTTPException 400 ''Invalid id format'')) \<and>
         (depends_require_admin e d a = Inr admin \<longrightarrow>
            DELETE_admin_games_traced e d a id_str =
              (Inl (HTTPException 400 ''Invalid id format''), snd (get_current_user_traced e d a)) \<and>
            DELETE_admin_games e d a id_str = Inl (HTTPException 400 ''Invalid id format'') \<and>
            PUT_admin_games_traced e d a id_str payload =
              (if no_updates payload then Inr (False, d)
               else Inl (HTTPException 400 ''Invalid id format''),
               snd (get_current_user_traced e d a)) \<and>
            PUT_admin_games e d a id_str payload =
              (if no_updates payload then Inr (False, d)
               else Inl (HTTPException 400 ''Invalid id format'')) \<and>
            POST_admin_orders_status_traced e d a id_str status =
              (if status \<in> set [''pending'', ''verified'', ''delivered'', ''cancelled'']
               then Inl (HTTPException 400 ''Invalid id format'')
               else Inl (HTTPException 400 ''Invalid status''),
               snd (get_current_user_traced e d a)) \<and>
            POST_admin_orders_status e d a id_str status =
              (if status \<in> set [''pending'', ''verified'', ''delivered'', ''cancelled'']
               then Inl (HTTPException 400 ''Invalid id format'')
               else Inl (HTTPException 400 ''Invalid status''))) \<and>
         (\<forall>err. depends_require_admin e d a = Inl err \<longrightarrow>
            DELETE_admin_games_traced e d a id_str = (Inl err, snd (get_current_user_traced e d a)) \<and>
            PUT_admin_games_traced e d a id_str payload =
              (Inl err, snd (get_current_user_traced e d a)) \<and>
            POST_admin_orders_status_traced e d a id_str status =
              (Inl err, snd (get_current_user_traced e d a)))"
proof -
  note bad = oid_malformed [OF malformed]
  obtain user where user: "get_current_user e d a = Inr user"
    using get_current_user_total by blast
  then have user_t: "fst (get_current_user_traced e d a) = Inr user"
    by (simp add: get_current_user_traced_fst)
  have g: "get_game_traced d id_str = (Inl (HTTPException 400 ''Invalid id format''), [])"
    by (simp add: get_game_traced_def bad)
  have g': "get_game d id_str = Inl (HTTPException 400 ''Invalid id format'')"
    using g get_game_traced_fst [of d id_str] by simp
  have o: "POST_orders_traced e d a p =
      (Inl (HTTPException 400 ''Invalid id format''), snd (get_current_user_traced e d a))"
    if "co_game_id p = id_str"
    using that by (simp add: POST_orders_traced_def after_dependency_def user_t
        create_order_traced_def bad)
  have o': "POST_orders e d a p = Inl (HTTPException 400 ''Invalid id format'')"
    if "co_game_id p = id_str"
    using o [OF that] routes_traced_fst(3) [of e d a p] by simp
  have dep: "fst (depends_require_admin_traced e d a) = Inr admin"
    if "depends_require_admin e d a = Inr admin"
    using that by (simp add: depends_require_admin_traced_fst)
  have del: "DELETE_admin_games_traced e d a id_str =
      (Inl (HTTPException 400 ''Invalid id format''), snd (get_current_user_traced e d a))"
    if "depends_require_admin e d a = Inr admin"
    by (simp add: DELETE_admin_games_traced_def after_dependency_def dep [OF that]
        depends_require_admin_traced_snd delete_game_traced_def bad)
  have del': "DELETE_admin_games e d a id_str = Inl (HTTPException 400 ''Invalid id format'')"
    if "depends_require_admin e d a = Inr admin"
    using del [OF that] routes_traced_fst(2) [of e d a id_str] by simp
  have put: "PUT_admin_games_traced e d a id_str payload =
      (if no_updates payload then Inr (False, d)
       else Inl (HTTPException 400 ''Invalid id format''),
       snd (get_current_user_traced e d a))"
    if "depends_require_admin e d a = Inr admin"
    by (simp add: PUT_admin_games_traced_def after_dependency_def dep [OF that]
        depends_require_admin_traced_snd update_game_traced_def bad)
  have put': "PUT_admin_games e d a id_str payload =
      (if no_updates payload then Inr (False, d)
       else Inl (HTTPException 400 ''Invalid id format''))"
    if "depends_require_admin e d a = Inr admin"
    using put [OF that] routes_traced_fst(1) [of e d a id_str payload] by simp
  have st: "POST_admin_orders_status_traced e d a id_str status =
      (if status \<in> set [''pending'', ''verified'', ''delivered'', ''cancelled'']
       then Inl (HTTPException 400 ''Invalid id format'')
       else Inl (HTTPException 400 ''Invalid status''),
       snd (get_current_user_traced e d a))"
    if "depends_require_admin e d a = Inr admin"
    by (simp add: POST_admin_orders_status_traced_def after_dependency_def dep [OF that]
        depends_require_admin_traced_snd update_order_status_traced_def bad)
  have st': "POST_admin_orders_status e d a id_str status =
      (if status \<in> set [''pending'', ''verified'', ''delivered'', ''cancelled'']
       then Inl (HTTPException 400 ''Invalid id format'')
       else Inl (HTTPException 400 ''Invalid status''))"
    if "depends_require_admin e d a = Inr admin"
    using st [OF that] routes_traced_fst(4) [of e d a id_str status]
    by (simp split: if_splits)
  have gate: "DELETE_admin_games_traced e d a id_str = (Inl err, snd (get_current_user_traced e d a)) \<and>
      PUT_admin_games_traced e d a id_str payload = (Inl err, snd (get_current_user_traced e d a)) \<and>
      POST_admin_orders_status_traced e d a id_str status =
        (Inl err, snd (get_current_user_traced e d a))"
    if "depends_require_admin e d a = Inl err" for err
  proof -
    from that have "fst (depends_require_admin_traced e d a) = Inl err"
      by (simp add: depends_require_admin_traced_fst)
    then show ?thesis
      by (simp add: DELETE_admin_games_traced_def PUT_admin_games_traced_def
          POST_admin_orders_status_traced_def after_dependency_def
          depends_require_admin_traced_snd)
  qed
  from g g' o o' del del' put put' st st' gate show ?thesis by blast
qed

theorem malformed_id_400_witness:
  "get_game_traced ex_db ''not-an-id'' = (Inl (HTTPException 400 ''Invalid id format''), []) \<and>
   POST_orders_traced ex_env ex_db None (ex_order_request ''not-an-id'' ''TX2'') =
     (Inl (HTTPException 400 ''Invalid id format''), []) \<and>
   DELETE_admin_games_traced ex_env ex_db (Some ''Bearer t-root'') ''not-an-id'' =
     (Inl (HTTPException 400 ''Invalid id format''),
      [Find_one ''session'' (By_field ''token'' ''t-root''),
       Find_one ''user'' (By_id (ObjectId ''000000000000000000000001''))]) \<and>
   PUT_admin_games ex_env ex_db (Some ''Bearer t-root'') ''not-an-id'' ex_new_title =
     Inl (HTTPException 400 ''Invalid id format'') \<and>
   POST_admin_orders_status ex_env ex_db (Some ''Bearer t-root'') ''not-an-id'' ''verified'' =
     Inl (HTTPException 400 ''Invalid id format'')"
proof -
  have bad: "length ''not-an-id'' \<noteq> 24 \<or>
      (\<exists>c\<in>set ''not-an-id''. \<not> is_hex_char c \<and> \<not> is_space c)"
    by simp
  note w = malformed_id_400 [OF bad, of ex_db "ex_order_request ''not-an-id'' ''TX2''"
      ex_env _ _ ex_new_title "''verified''"]
  have p: "co_game_id (ex_order_request ''not-an-id'' ''TX2'') = ''not-an-id''"
    by (simp add: ex_order_request_def)
  have fields: "\<not> no_updates ex_new_title"
    by (simp add: no_updates_def ex_new_title_def)
  have anon_calls: "snd (get_current_user_traced ex_env ex_db None) = []"
    by (simp add: get_current_user_traced_def)
  have b: "startswith (lower ''Bearer t-root'') ''bearer ''"
    by (simp add: startswith_def lower_def lower_char_def)
  have root_id: "oid ''000000000000000000000001'' = Inr (ObjectId ''000000000000000000000001'')"
    by (simp add: oid_eval)
  have root_calls: "snd (get_current_user_traced ex_env ex_db (Some ''Bearer t-root'')) =
      [Find_one ''session'' (By_field ''token'' ''t-root''),
       Find_one ''user'' (By_id (ObjectId ''000000000000000000000001''))]"
    using b bearer_token [OF b] oid_Inr_valid [OF root_id]
    by (simp add: get_current_user_traced_def find_one_def ex_db_def ex_session_def ex_env_def
        root_id)
  note w1 = w [of None ex_root, THEN conjunct1]
  note w2 = mp [OF w [of None ex_root, THEN conjunct2, THEN conjunct2, THEN conjunct1] p]
  note w3 = mp [OF w [of "Some ''Bearer t-root''" ex_root, THEN conjunct2, THEN conjunct2,
        THEN conjunct2, THEN conjunct1] ex_root_is_admin]
  show ?thesis
    using w1 w2 w3 fields by (simp add: anon_calls root_calls)
qed

text \<open>
  A string of 24 characters that holds white space between its digits passes \<open>oid\<close>
  with fewer than twelve bytes, and the handler goes on to query the store with it: the
  amended claim does not speak of such a string.
\<close>

lemma white_space_id_is_queried:
  "get_game_traced ex_db ''aaaaaaaaaaaaaaaaaaaaaa  '' =
     (Inl (HTTPException 404 ''Game not found''),
      [Find_one ''game'' (By_id (ObjectId ''aaaaaaaaaaaaaaaaaaaaaa''))])"
  by (simp add: get_game_traced_def oid_eval find_one_def ex_db_def ex_game_def)

end
